theory Spec2Isabelle
  imports Main
begin

section \<open>Data model of package ai\<close>

text \<open>
  Go strings are byte sequences, and \<open>len\<close> and slicing count bytes; \<open>string\<close>
  (a list of 8-bit characters) models them directly. A Go \<open>error\<close> is used by this
  program only through its text (\<open>%v\<close>) or wrapped with a prefix (\<open>%w\<close>), so an error is
  modelled by its text.
\<close>

type_synonym error = string

text \<open>\<open>type Message struct\<close>: one flat record for all four kinds of turn.\<close>

record Message =
  Role :: string
  Content :: string
  ToolCallID :: string
  ToolCallName :: string
  ToolCallInput :: string

text \<open>\<open>type ToolCall struct { ID, Name, Input string }\<close>.\<close>

record ToolCall =
  ID :: string
  Name :: string
  Input :: string

text \<open>
  \<open>type Response struct { Content string; ToolCalls []ToolCall }\<close>. The field
  \<open>Content\<close> is written \<open>RContent\<close> here, since \<open>Content\<close> is the field of
  \<open>Message\<close>.
\<close>

record Response =
  RContent :: string
  ToolCalls :: "ToolCall list"

text \<open>
  \<open>type Tool struct\<close>; \<open>Name\<close> is written \<open>ToolName\<close>. A parameter schema
  \<open>map[string]any\<close> is an association list from the parameter name to its
  \<open>type\<close> and \<open>description\<close>.
\<close>

record Tool =
  ToolName :: string
  Description :: string
  Parameters :: "(string \<times> string \<times> string) list"
  Required :: "string list"

section \<open>Truncation of tool results (tui.go, sendMessage and sendFinalMessage)\<close>

text \<open>The literal \<open>"\n... [output truncated, too long]"\<close>.\<close>

definition truncation_marker :: string where
  "truncation_marker = CHR 0x0A # ''... [output truncated, too long]''"

text \<open>
  \<open>if len(result) > 5000 { result = result[:5000] + "\n... [output truncated, too long]" }\<close>
\<close>

definition truncate_result :: "string \<Rightarrow> string" where
  "truncate_result result =
     (if length result > 5000 then take 5000 result @ truncation_marker else result)"


section \<open>strings.TrimSpace\<close>

text \<open>
  \<open>strings.TrimSpace\<close> removes leading and trailing white space as defined by Unicode
  (\<open>unicode.IsSpace\<close>). On a byte string these are the UTF-8 encodings of U+0009..U+000D,
  U+0020, U+0085, U+00A0, U+1680, U+2000..U+200A, U+2028, U+2029, U+202F, U+205F and U+3000.
\<close>

definition white_space :: "string list" where
  "white_space =
     [[CHR 0x09], [CHR 0x0A], [CHR 0x0B], [CHR 0x0C], [CHR 0x0D], [CHR 0x20],
      [CHR 0xC2, CHR 0x85], [CHR 0xC2, CHR 0xA0],
      [CHR 0xE1, CHR 0x9A, CHR 0x80],
      [CHR 0xE2, CHR 0x80, CHR 0x80], [CHR 0xE2, CHR 0x80, CHR 0x81],
      [CHR 0xE2, CHR 0x80, CHR 0x82], [CHR 0xE2, CHR 0x80, CHR 0x83],
      [CHR 0xE2, CHR 0x80, CHR 0x84], [CHR 0xE2, CHR 0x80, CHR 0x85],
      [CHR 0xE2, CHR 0x80, CHR 0x86], [CHR 0xE2, CHR 0x80, CHR 0x87],
      [CHR 0xE2, CHR 0x80, CHR 0x88], [CHR 0xE2, CHR 0x80, CHR 0x89],
      [CHR 0xE2, CHR 0x80, CHR 0x8A],
      [CHR 0xE2, CHR 0x80, CHR 0xA8], [CHR 0xE2, CHR 0x80, CHR 0xA9],
      [CHR 0xE2, CHR 0x80, CHR 0xAF], [CHR 0xE2, CHR 0x81, CHR 0x9F],
      [CHR 0xE3, CHR 0x80, CHR 0x80]]"

text \<open>\<open>strip_prefix p s\<close> is the rest of \<open>s\<close> after the prefix \<open>p\<close>, if \<open>s\<close> starts with it.\<close>

fun strip_prefix :: "string \<Rightarrow> string \<Rightarrow> string option" where
  "strip_prefix [] s = Some s"
| "strip_prefix (p # ps) [] = None"
| "strip_prefix (p # ps) (c # cs) = (if p = c then strip_prefix ps cs else None)"

text \<open>The rest of \<open>s\<close> after the first non-empty sequence of \<open>ps\<close> that \<open>s\<close> starts with.\<close>

fun strip_any :: "string list \<Rightarrow> string \<Rightarrow> string option" where
  "strip_any [] s = None"
| "strip_any (p # ps) s =
     (if p = [] then strip_any ps s
      else case strip_prefix p s of Some r \<Rightarrow> Some r | None \<Rightarrow> strip_any ps s)"

function trim_leading :: "string list \<Rightarrow> string \<Rightarrow> string" where
  "trim_leading ps s = (case strip_any ps s of Some r \<Rightarrow> trim_leading ps r | None \<Rightarrow> s)"
  by pat_completeness auto
termination
proof (relation "measure (\<lambda>(ps, s). length s)")
  show "wf (measure (\<lambda>(ps :: string list, s :: string). length s))"
    by simp
next
  fix ps :: "string list" and s r :: string
  assume a: "strip_any ps s = Some r"
  have sp: "strip_prefix p t = Some u \<Longrightarrow> length u + length p = length t"
    for p t u :: string
    by (induction p t rule: strip_prefix.induct) (auto split: if_splits)
  have "strip_any qs s = Some r \<Longrightarrow> length r < length s" for qs
  proof (induction qs)
    case Nil
    then show ?case by simp
  next
    case (Cons q qs)
    show ?case
    proof (cases "q = []")
      case True
      with Cons show ?thesis by simp
    next
      case False
      show ?thesis
      proof (cases "strip_prefix q s")
        case None
        with False Cons show ?thesis by simp
      next
        case (Some u)
        with False Cons.prems have "u = r" by simp
        with Some have "length r + length q = length s" by (simp add: sp)
        with False show ?thesis by (cases q) auto
      qed
    qed
  qed
  with a show "((ps, r), (ps, s)) \<in> measure (\<lambda>(ps, s). length s)"
    by simp
qed

declare trim_leading.simps [simp del]

definition TrimSpace :: "string \<Rightarrow> string" where
  "TrimSpace s = rev (trim_leading (map rev white_space) (rev (trim_leading white_space s)))"

section \<open>encoding/json, as far as the tool handlers use it\<close>

datatype json =
  JNull | JBool bool | JNumber string | JString string
  | JArray "json list" | JObject "(string \<times> json) list"

text \<open>
  The world outside the program. Every call of the Model Gateway
  (\<open>Client.SendMessageWithTools\<close>, an HTTP round trip) and every subprocess
  (\<open>exec.CommandContext(...).CombinedOutput()\<close>) is answered by the environment from
  the number of calls made before it and the arguments of the call, so the answers
  may differ from call to call. The JSON reader of \<open>encoding/json\<close> is \<open>json_parse\<close>
  (the text of the syntax error, or the value read), and \<open>json_type_error\<close> is the
  text of the \<open>UnmarshalTypeError\<close> for a value that does not fit its target: the
  parameter struct as a whole, or its string field \<open>Command\<close>.
\<close>

datatype json_target = Whole_struct | Command_field

record env =
  gateway :: "nat \<Rightarrow> Message list \<Rightarrow> Tool list \<Rightarrow> error + Response"
  exec :: "nat \<Rightarrow> string list \<Rightarrow> string \<times> error option"
  json_parse :: "string \<Rightarrow> error + json"
  json_type_error :: "json_target \<Rightarrow> json \<Rightarrow> error"

text \<open>The calls made so far.\<close>

record world =
  gateway_calls :: nat
  exec_calls :: nat

definition SendMessageWithTools ::
  "env \<Rightarrow> Message list \<Rightarrow> Tool list \<Rightarrow> world \<Rightarrow> (error + Response) \<times> world" where
  "SendMessageWithTools env msgs tls w =
     (gateway env (gateway_calls w) msgs tls, w\<lparr>gateway_calls := Suc (gateway_calls w)\<rparr>)"

definition CombinedOutput ::
  "env \<Rightarrow> string list \<Rightarrow> world \<Rightarrow> (string \<times> error option) \<times> world" where
  "CombinedOutput env argv w = (exec env (exec_calls w) argv, w\<lparr>exec_calls := Suc (exec_calls w)\<rparr>)"

text \<open>
  \<open>json.Unmarshal([]byte(input), &params)\<close> with
  \<open>var params struct { Command string `json:"command"` }\<close>. A key names the field when
  it equals \<open>command\<close> up to the case of its letters. A string value is stored, \<open>null\<close>
  leaves the field as it is, any other value records a type error (the first one is
  kept) and decoding goes on; keys that name no field are skipped. At top level
  \<open>null\<close> is accepted and leaves the struct at its zero value, and a value that is
  neither an object nor \<open>null\<close> is a type error.
\<close>

definition to_lower :: "char \<Rightarrow> char" where
  "to_lower c = (let n = (of_char c :: nat) in if 65 \<le> n \<and> n \<le> 90 then char_of (n + 32) else c)"

definition names_command :: "string \<Rightarrow> bool" where
  "names_command key = (map to_lower key = ''command'')"

fun decode_members ::
  "(json \<Rightarrow> error) \<Rightarrow> (string \<times> json) list \<Rightarrow> string \<times> error option \<Rightarrow> string \<times> error option" where
  "decode_members terr [] st = st"
| "decode_members terr ((k, v) # kvs) (cmd, err) =
     (if names_command k then
        (case v of
           JString s \<Rightarrow> decode_members terr kvs (s, err)
         | JNull \<Rightarrow> decode_members terr kvs (cmd, err)
         | _ \<Rightarrow> decode_members terr kvs
                 (cmd, (case err of None \<Rightarrow> Some (terr v) | Some e \<Rightarrow> Some e)))
      else decode_members terr kvs (cmd, err))"

definition Unmarshal_params :: "env \<Rightarrow> string \<Rightarrow> error + string" where
  "Unmarshal_params env input =
     (case json_parse env input of
        Inl e \<Rightarrow> Inl e
      | Inr v \<Rightarrow>
          (case v of
             JObject kvs \<Rightarrow>
               (case decode_members (json_type_error env Command_field) kvs ([], None) of
                  (cmd, None) \<Rightarrow> Inr cmd
                | (cmd, Some e) \<Rightarrow> Inl e)
           | JNull \<Rightarrow> Inr []
           | _ \<Rightarrow> Inl (json_type_error env Whole_struct v)))"

section \<open>Tool handlers (package tools: bash.go, nvidia_smi.go; package ai: tools.go)\<close>

text \<open>
  \<open>func ExecuteBash(ctx, input) (string, error)\<close> of package tools. The 30 second
  timeout is part of the subprocess's outcome, which the environment gives.
\<close>

definition ExecuteBash :: "env \<Rightarrow> string \<Rightarrow> world \<Rightarrow> (error + string) \<times> world" where
  "ExecuteBash env input w =
     (case Unmarshal_params env input of
        Inl err \<Rightarrow> (Inl (''invalid input: '' @ err), w)
      | Inr command \<Rightarrow>
          (case CombinedOutput env [''bash'', ''-c'', command] w of
             ((output, Some err), w1) \<Rightarrow>
               (Inl (''command failed: '' @ err @ [CHR 0x0A] @ ''Output: '' @ output), w1)
           | ((output, None), w1) \<Rightarrow> (Inr (TrimSpace output), w1)))"

definition ExecuteNvidiaSmi :: "env \<Rightarrow> string \<Rightarrow> world \<Rightarrow> (error + string) \<times> world" where
  "ExecuteNvidiaSmi env input w =
     (case Unmarshal_params env input of
        Inl err \<Rightarrow> (Inl (''invalid input: '' @ err), w)
      | Inr command \<Rightarrow>
          (case CombinedOutput env [''bash'', ''-c'', command] w of
             ((output, Some err), w1) \<Rightarrow>
               (Inl (''command failed: '' @ err @ [CHR 0x0A] @ ''Output: '' @ output), w1)
           | ((output, None), w1) \<Rightarrow> (Inr (TrimSpace output), w1)))"

text \<open>\<open>func executeBash\<close> and \<open>func executeGetTime\<close> of package ai.\<close>

definition executeBash :: "env \<Rightarrow> string \<Rightarrow> world \<Rightarrow> (error + string) \<times> world" where
  "executeBash env input w =
     (case Unmarshal_params env input of
        Inl err \<Rightarrow> (Inl (''invalid input: '' @ err), w)
      | Inr command \<Rightarrow>
          (case CombinedOutput env [''bash'', ''-c'', command] w of
             ((output, Some err), w1) \<Rightarrow>
               (Inl (''command failed: '' @ err @ [CHR 0x0A] @ ''Output: '' @ output), w1)
           | ((output, None), w1) \<Rightarrow> (Inr (TrimSpace output), w1)))"

definition executeGetTime :: "env \<Rightarrow> string \<Rightarrow> world \<Rightarrow> (error + string) \<times> world" where
  "executeGetTime env input w =
     (case CombinedOutput env [''date''] w of
        ((output, Some err), w1) \<Rightarrow> (Inl (''failed to get time: '' @ err), w1)
      | ((output, None), w1) \<Rightarrow> (Inr (TrimSpace output), w1))"

text \<open>
  \<open>type ToolHandler func(ctx, input string) (string, error)\<close>: the handlers this
  repository registers, by name.
\<close>

datatype ToolHandler =
  Handler_executeBash | Handler_executeGetTime | Handler_ExecuteBash | Handler_ExecuteNvidiaSmi

fun call_handler :: "env \<Rightarrow> ToolHandler \<Rightarrow> string \<Rightarrow> world \<Rightarrow> (error + string) \<times> world" where
  "call_handler env Handler_executeBash input w = executeBash env input w"
| "call_handler env Handler_executeGetTime input w = executeGetTime env input w"
| "call_handler env Handler_ExecuteBash input w = ExecuteBash env input w"
| "call_handler env Handler_ExecuteNvidiaSmi input w = ExecuteNvidiaSmi env input w"

section \<open>Tool registry (package ai: ToolExecutor; package tools: Executor)\<close>

text \<open>\<open>type ToolExecutor struct { tools map[string]ToolHandler }\<close>.\<close>

record ToolExecutor =
  tools :: "string \<rightharpoonup> ToolHandler"

text \<open>\<open>te.tools[name] = handler\<close>; the method returns nothing.\<close>

definition RegisterTool :: "string \<Rightarrow> ToolHandler \<Rightarrow> ToolExecutor \<Rightarrow> ToolExecutor" where
  "RegisterTool name handler te = te\<lparr>tools := (tools te)(name \<mapsto> handler)\<rparr>"

definition NewToolExecutor :: ToolExecutor where
  "NewToolExecutor =
     RegisterTool ''get_time'' Handler_executeGetTime
       (RegisterTool ''bash'' Handler_executeBash \<lparr>tools = Map.empty\<rparr>)"

definition ToolExecutor_Execute ::
  "env \<Rightarrow> ToolExecutor \<Rightarrow> ToolCall \<Rightarrow> world \<Rightarrow> (error + string) \<times> world" where
  "ToolExecutor_Execute env te toolCall w =
     (case tools te (Name toolCall) of
        None \<Rightarrow> (Inl (''tool not found: '' @ Name toolCall), w)
      | Some handler \<Rightarrow> call_handler env handler (Input toolCall) w)"

text \<open>
  \<open>type Executor struct { executor *ai.ToolExecutor }\<close> of package tools; its field is
  written \<open>ai_executor\<close>, and its constructor \<open>New\<close> is written \<open>tools_New\<close>.
\<close>

record Executor =
  ai_executor :: ToolExecutor

definition tools_New :: Executor where
  "tools_New =
     \<lparr>ai_executor =
        RegisterTool ''nvidia_smi'' Handler_ExecuteNvidiaSmi
          (RegisterTool ''bash'' Handler_ExecuteBash NewToolExecutor)\<rparr>"

definition Execute :: "env \<Rightarrow> Executor \<Rightarrow> ToolCall \<Rightarrow> world \<Rightarrow> (error + string) \<times> world" where
  "Execute env e toolCall w = ToolExecutor_Execute env (ai_executor e) toolCall w"

definition BashTool :: Tool where
  "BashTool =
     \<lparr>ToolName = ''bash'',
      Description = ''Execute a bash command and return the output. Use this to run shell commands, check system information, or interact with the filesystem. For commands like 'top', use 'top -l 1' to get a single snapshot instead of continuous output.'',
      Parameters = [(''command'', ''string'', ''The bash command to execute (e.g., 'ls -la', 'date', 'pwd', 'top -l 1'). Use flags to limit output for commands that run continuously.'')],
      Required = [''command'']\<rparr>"

definition NvidiaSmiTool :: Tool where
  "NvidiaSmiTool =
     \<lparr>ToolName = ''nvidia_smi'',
      Description = ''Execute the nvidia-smi command on shell and return the output.'',
      Parameters = [(''command'', ''string'', ''The nvidia-smi command to execute (e.g., 'nvidia-smi', 'nvidia-smi -q', 'nvidia-smi -l 1'). Use flags to limit output for commands that run continuously.'')],
      Required = [''command'']\<rparr>"

definition GetAvailableTools :: "Executor \<Rightarrow> Tool list" where
  "GetAvailableTools e = [BashTool, NvidiaSmiTool]"

section \<open>The tool phase (tui.go, the loop over response.ToolCalls)\<close>

text \<open>
  \<open>ai.Message{Role: "assistant", ToolCallID: toolCall.ID, ToolCallName: toolCall.Name,
  ToolCallInput: toolCall.Input}\<close> and
  \<open>ai.Message{Role: "tool", Content: result, ToolCallID: toolCall.ID}\<close>; the fields a
  literal leaves out are empty strings.
\<close>

definition tool_call_message :: "ToolCall \<Rightarrow> Message" where
  "tool_call_message toolCall =
     \<lparr>Role = ''assistant'', Content = [], ToolCallID = ID toolCall,
      ToolCallName = Name toolCall, ToolCallInput = Input toolCall\<rparr>"

definition tool_result_message :: "ToolCall \<Rightarrow> string \<Rightarrow> Message" where
  "tool_result_message toolCall result =
     \<lparr>Role = ''tool'', Content = result, ToolCallID = ID toolCall,
      ToolCallName = [], ToolCallInput = []\<rparr>"

text \<open>
  \<open>result, err := m.executor.Execute(ctx, toolCall);
  if err != nil { result = fmt.Sprintf("Error: %v", err) }\<close>
\<close>

definition result_text :: "error + string \<Rightarrow> string" where
  "result_text r = (case r of Inl err \<Rightarrow> ''Error: '' @ err | Inr result \<Rightarrow> result)"

text \<open>
  \<open>for _, toolCall := range response.ToolCalls { ... }\<close>: the body is the same in
  sendMessage and in sendFinalMessage. It appends the request, runs the tool, and
  appends the (truncated) result.
\<close>

fun execute_tool_calls ::
  "env \<Rightarrow> Executor \<Rightarrow> ToolCall list \<Rightarrow> Message list \<Rightarrow> world \<Rightarrow> Message list \<times> world" where
  "execute_tool_calls env e [] msgs w = (msgs, w)"
| "execute_tool_calls env e (toolCall # rest) msgs w =
     (case Execute env e toolCall w of
        (r, w1) \<Rightarrow>
          execute_tool_calls env e rest
            (msgs @ [tool_call_message toolCall]
                  @ [tool_result_message toolCall (truncate_result (result_text r))])
            w1)"

section \<open>The terminal program (tui.go)\<close>

datatype KeyType = KeyCtrlC | KeyEsc | KeyEnter | KeyOther

text \<open>
  The messages \<open>Update\<close> receives: \<open>tea.WindowSizeMsg{Width, Height}\<close>, \<open>tea.KeyMsg\<close>,
  \<open>responseMsg{content, messages, err}\<close>, \<open>toolResponseMsg{result, err}\<close>,
  \<open>toolExecutedMsg{messages}\<close>, and any other message of the runtime. A nil slice is
  the empty list, a nil error is \<open>None\<close>.
\<close>

datatype Msg =
  WindowSizeMsg int int
  | KeyMsg KeyType
  | responseMsg string "Message list" "error option"
  | toolResponseMsg string "error option"
  | toolExecutedMsg "Message list"
  | OtherMsg

text \<open>
  The two widgets (\<open>textarea.Model\<close>, \<open>viewport.Model\<close>) are library code: their states
  are the type parameters \<open>'ta\<close> and \<open>'vp\<close>, and their operations are given.
  \<open>Update\<close> of a widget returns its new state (\<open>input_Update\<close>, \<open>viewport_Update\<close>) and a
  command; \<open>input_Cmd\<close> and \<open>viewport_Cmd\<close> say whether that command is not nil.
  \<open>viewport_SetContent\<close> stands for \<open>m.viewport.SetContent(m.renderMessages())\<close>, which
  reads \<open>m.messages\<close> and \<open>m.thinking\<close>.
\<close>

record ('ta, 'vp) widgets =
  input_Update :: "Msg \<Rightarrow> 'ta \<Rightarrow> 'ta"
  input_Cmd :: "Msg \<Rightarrow> 'ta \<Rightarrow> bool"
  input_Value :: "'ta \<Rightarrow> string"
  input_Reset :: "'ta \<Rightarrow> 'ta"
  input_SetWidth :: "int \<Rightarrow> 'ta \<Rightarrow> 'ta"
  viewport_Update :: "Msg \<Rightarrow> 'vp \<Rightarrow> 'vp"
  viewport_Cmd :: "Msg \<Rightarrow> 'vp \<Rightarrow> bool"
  viewport_Resize :: "int \<Rightarrow> int \<Rightarrow> 'vp \<Rightarrow> 'vp"
  viewport_SetContent :: "Message list \<Rightarrow> bool \<Rightarrow> 'vp \<Rightarrow> 'vp"
  viewport_GotoBottom :: "'vp \<Rightarrow> 'vp"

text \<open>\<open>type model struct\<close>; the field \<open>client\<close> is the Model Gateway of the environment.\<close>

record ('ta, 'vp) model =
  width :: int
  height :: int
  executor :: Executor
  input :: 'ta
  viewport :: 'vp
  messages :: "Message list"
  ready :: bool
  thinking :: bool

text \<open>
  The commands \<open>Update\<close> returns: \<open>tea.Quit\<close>, the closures \<open>m.sendMessage()\<close> and
  \<open>m.sendFinalMessage()\<close> (which hold the copy of the model they were made from), and
  \<open>tea.Batch(tiCmd, vpCmd)\<close> of the widgets' own commands. \<open>None\<close> is the nil command,
  which is also what \<open>tea.Batch\<close> returns when both of its commands are nil.
\<close>

datatype ('ta, 'vp) Cmd =
  Quit
  | Cmd_sendMessage "('ta, 'vp) model"
  | Cmd_sendFinalMessage "('ta, 'vp) model"
  | Batch

definition New :: "'ta \<Rightarrow> 'vp \<Rightarrow> ('ta, 'vp) model" where
  "New ta vp =
     \<lparr>width = 0, height = 0, executor = tools_New, input = ta, viewport = vp,
      messages = [], ready = False, thinking = False\<rparr>"

definition sendMessage :: "env \<Rightarrow> ('ta, 'vp) model \<Rightarrow> world \<Rightarrow> Msg \<times> world" where
  "sendMessage env m w =
     (case SendMessageWithTools env (messages m) (GetAvailableTools (executor m)) w of
        (Inl err, w1) \<Rightarrow> (responseMsg [] [] (Some err), w1)
      | (Inr response, w1) \<Rightarrow>
          if length (ToolCalls response) = 0 then
            (responseMsg (RContent response) (messages m) None, w1)
          else
            (case execute_tool_calls env (executor m) (ToolCalls response) (messages m) w1 of
               (msgs, w2) \<Rightarrow> (toolExecutedMsg msgs, w2)))"

definition maxIterations :: nat where
  "maxIterations = 5"

text \<open>Decimal digits of a number, for \<open>%d\<close>.\<close>

function itoa :: "nat \<Rightarrow> string" where
  "itoa n = (if n < 10 then [char_of (48 + n)] else itoa (n div 10) @ [char_of (48 + n mod 10)])"
  by pat_completeness auto
termination
  by (relation "measure (\<lambda>n. n)") auto

declare itoa.simps [simp del]

text \<open>
  \<open>for iteration := 0; iteration < maxIterations; iteration++ { ... }\<close> of
  sendFinalMessage, from the value of \<open>iteration\<close> and the transcript \<open>m.messages\<close>
  reached so far. The 60 second deadline of \<open>ctx\<close> shows in the outcomes the
  environment gives.
\<close>

function sendFinalMessage_loop ::
  "env \<Rightarrow> Executor \<Rightarrow> nat \<Rightarrow> Message list \<Rightarrow> world \<Rightarrow> Msg \<times> world" where
  "sendFinalMessage_loop env e iteration msgs w =
     (if iteration < maxIterations then
        (case SendMessageWithTools env msgs (GetAvailableTools e) w of
           (Inl err, w1) \<Rightarrow> (responseMsg [] msgs (Some (''final response error: '' @ err)), w1)
         | (Inr response, w1) \<Rightarrow>
             if length (ToolCalls response) > 0 then
               (case execute_tool_calls env e (ToolCalls response) msgs w1 of
                  (msgs', w2) \<Rightarrow> sendFinalMessage_loop env e (Suc iteration) msgs' w2)
             else if RContent response \<noteq> [] then
               (responseMsg (RContent response) msgs None, w1)
             else
               (responseMsg [] msgs
                  (Some ''empty response from Claude (no error, just empty content)''), w1))
      else
        (responseMsg [] msgs
           (Some (''reached maximum iterations ('' @ itoa maxIterations
                    @ '') - Claude kept calling tools'')), w))"
  by pat_completeness auto
termination
  by (relation "measure (\<lambda>(env, e, iteration, msgs, w). maxIterations - iteration)") auto

declare sendFinalMessage_loop.simps [simp del]

definition sendFinalMessage :: "env \<Rightarrow> ('ta, 'vp) model \<Rightarrow> world \<Rightarrow> Msg \<times> world" where
  "sendFinalMessage env m w = sendFinalMessage_loop env (executor m) 0 (messages m) w"

definition assistant_text :: "string \<Rightarrow> Message" where
  "assistant_text c =
     \<lparr>Role = ''assistant'', Content = c, ToolCallID = [], ToolCallName = [], ToolCallInput = []\<rparr>"

definition user_text :: "string \<Rightarrow> Message" where
  "user_text c =
     \<lparr>Role = ''user'', Content = c, ToolCallID = [], ToolCallName = [], ToolCallInput = []\<rparr>"

text \<open>\<open>m.viewport.SetContent(m.renderMessages()); m.viewport.GotoBottom()\<close>.\<close>

definition refresh :: "('ta, 'vp) widgets \<Rightarrow> ('ta, 'vp) model \<Rightarrow> ('ta, 'vp) model" where
  "refresh ui m =
     m\<lparr>viewport :=
         viewport_GotoBottom ui (viewport_SetContent ui (messages m) (thinking m) (viewport m))\<rparr>"

text \<open>
  \<open>func (m model) Update(msg tea.Msg) (tea.Model, tea.Cmd)\<close>. Both widgets see every
  message before the switch.
\<close>

definition Update ::
  "('ta, 'vp) widgets \<Rightarrow> Msg \<Rightarrow> ('ta, 'vp) model \<Rightarrow> ('ta, 'vp) model \<times> ('ta, 'vp) Cmd option" where
  "Update ui msg m0 =
     (let m = m0\<lparr>input := input_Update ui msg (input m0),
                 viewport := viewport_Update ui msg (viewport m0)\<rparr>;
          batch = (if input_Cmd ui msg (input m0) \<or> viewport_Cmd ui msg (viewport m0)
                   then Some Batch else None)
      in case msg of
           WindowSizeMsg wd ht \<Rightarrow>
             (let m1 = m\<lparr>width := wd, height := ht\<rparr>;
                  m2 = (if \<not> ready m1 then
                          m1\<lparr>viewport := viewport_Resize ui (wd - 4) (ht - 10) (viewport m1),
                             input := input_SetWidth ui (wd - 4) (input m1),
                             ready := True\<rparr>
                        else
                          m1\<lparr>viewport := viewport_Resize ui (wd - 4) (ht - 10) (viewport m1),
                             input := input_SetWidth ui (wd - 4) (input m1)\<rparr>)
              in (m2\<lparr>viewport :=
                       viewport_SetContent ui (messages m2) (thinking m2) (viewport m2)\<rparr>,
                  None))
         | KeyMsg k \<Rightarrow>
             (case k of
                KeyCtrlC \<Rightarrow> (m, Some Quit)
              | KeyEsc \<Rightarrow> (m, Some Quit)
              | KeyEnter \<Rightarrow>
                  if thinking m then (m, None)
                  else
                    (let userInput = TrimSpace (input_Value ui (input m))
                     in if userInput = [] then (m, None)
                        else
                          (let m1 = m\<lparr>messages := messages m @ [user_text userInput]\<rparr>;
                               m2 = m1\<lparr>input := input_Reset ui (input m1), thinking := True\<rparr>;
                               m3 = refresh ui m2
                           in (m3, Some (Cmd_sendMessage m3))))
              | KeyOther \<Rightarrow> (m, batch))
         | responseMsg content msgs err \<Rightarrow>
             (let m1 = m\<lparr>thinking := False\<rparr>;
                  m2 = (case err of
                          Some e \<Rightarrow>
                            m1\<lparr>messages := messages m1 @ [assistant_text (''Error: '' @ e)]\<rparr>
                        | None \<Rightarrow>
                            (let m1' = (if length msgs > 0 then m1\<lparr>messages := msgs\<rparr> else m1)
                             in m1'\<lparr>messages := messages m1' @ [assistant_text content]\<rparr>))
              in (refresh ui m2, None))
         | toolResponseMsg result err \<Rightarrow>
             (let m1 = m\<lparr>thinking := False\<rparr>;
                  m2 = (case err of
                          Some e \<Rightarrow>
                            m1\<lparr>messages := messages m1 @ [assistant_text (''Tool Error: '' @ e)]\<rparr>
                        | None \<Rightarrow> m1\<lparr>messages := messages m1 @ [assistant_text result]\<rparr>)
              in (refresh ui m2, None))
         | toolExecutedMsg msgs \<Rightarrow>
             (let m1 = refresh ui (m\<lparr>messages := msgs\<rparr>)
              in (m1, Some (Cmd_sendFinalMessage m1)))
         | OtherMsg \<Rightarrow> (m, batch))"

section \<open>One exchange\<close>

text \<open>
  What the Bubble Tea runtime does with a command: it runs the closure and hands the
  message it returns to \<open>Update\<close>. \<open>tea.Quit\<close> ends the program, and the widgets'
  own commands produce no message of this program.
\<close>

fun perform :: "env \<Rightarrow> ('ta, 'vp) Cmd \<Rightarrow> world \<Rightarrow> Msg option \<times> world" where
  "perform env Quit w = (None, w)"
| "perform env Batch w = (None, w)"
| "perform env (Cmd_sendMessage m) w = (case sendMessage env m w of (msg, w1) \<Rightarrow> (Some msg, w1))"
| "perform env (Cmd_sendFinalMessage m) w =
     (case sendFinalMessage env m w of (msg, w1) \<Rightarrow> (Some msg, w1))"

text \<open>
  The runtime's loop, for at most \<open>fuel\<close> commands and with no other event arriving
  in between: \<open>None\<close> when a command is still pending after \<open>fuel\<close> steps.
\<close>

fun run_commands ::
  "('ta, 'vp) widgets \<Rightarrow> env \<Rightarrow> nat \<Rightarrow> ('ta, 'vp) model \<times> ('ta, 'vp) Cmd option \<Rightarrow> world
     \<Rightarrow> (('ta, 'vp) model \<times> world) option" where
  "run_commands ui env fuel (m, None) w = Some (m, w)"
| "run_commands ui env 0 (m, Some c) w = None"
| "run_commands ui env (Suc fuel) (m, Some c) w =
     (case perform env c w of
        (None, w1) \<Rightarrow> Some (m, w1)
      | (Some msg, w1) \<Rightarrow> run_commands ui env fuel (Update ui msg m) w1)"

text \<open>One exchange: the user presses Enter, and the runtime runs what follows.\<close>

definition exchange ::
  "('ta, 'vp) widgets \<Rightarrow> env \<Rightarrow> ('ta, 'vp) model \<Rightarrow> world \<Rightarrow> (('ta, 'vp) model \<times> world) option" where
  "exchange ui env m w = run_commands ui env 2 (Update ui (KeyMsg KeyEnter) m) w"

section \<open>Properties of transcripts and payloads\<close>

text \<open>
  Every message of role \<open>tool\<close> comes immediately after a message of role \<open>assistant\<close>
  that carries the same \<open>ToolCallID\<close>; \<open>prev\<close> is the message before the list.
\<close>

fun answered_from :: "Message option \<Rightarrow> Message list \<Rightarrow> bool" where
  "answered_from prev [] = True"
| "answered_from prev (m # ms) =
     ((if Role m = ''tool'' then
         (case prev of
            None \<Rightarrow> False
          | Some p \<Rightarrow> Role p = ''assistant'' \<and> ToolCallID p = ToolCallID m)
       else True)
      \<and> answered_from (Some m) ms)"

definition results_answer_requests :: "Message list \<Rightarrow> bool" where
  "results_answer_requests ms = answered_from None ms"

text \<open>The role and call ID of the two turns the tool phase appends for each tool call.\<close>

fun turn_pairs :: "ToolCall list \<Rightarrow> (string \<times> string) list" where
  "turn_pairs [] = []"
| "turn_pairs (c # cs) = (''assistant'', ID c) # (''tool'', ID c) # turn_pairs cs"



section \<open>Example environments\<close>

text \<open>An input field that holds its text and ignores every message, and no display.\<close>

definition plain_widgets :: "(string, unit) widgets" where
  "plain_widgets =
     \<lparr>input_Update = (\<lambda>msg s. s), input_Cmd = (\<lambda>msg s. False),
      input_Value = (\<lambda>s. s), input_Reset = (\<lambda>s. []), input_SetWidth = (\<lambda>n s. s),
      viewport_Update = (\<lambda>msg v. v), viewport_Cmd = (\<lambda>msg v. False),
      viewport_Resize = (\<lambda>wd ht v. v), viewport_SetContent = (\<lambda>ms t v. v),
      viewport_GotoBottom = (\<lambda>v. v)\<rparr>"

text \<open>
  An input field that, as a text area does with its default key map, puts a line
  break at the end of its text when Enter is pressed.
\<close>

definition newline_widgets :: "(string, unit) widgets" where
  "newline_widgets =
     plain_widgets\<lparr>input_Update :=
       (\<lambda>msg s. if msg = KeyMsg KeyEnter then s @ [CHR 0x0A] else s)\<rparr>"

text \<open>The program just started, with \<open>s\<close> in the input field.\<close>

definition typed :: "string \<Rightarrow> (string, unit) model" where
  "typed s = New s ()"

definition start :: world where
  "start = \<lparr>gateway_calls = 0, exec_calls = 0\<rparr>"

text \<open>A JSON reader that knows three texts and rejects every other one.\<close>

definition example_json :: "string \<Rightarrow> error + json" where
  \<open>example_json s =
     (if s = ''{}'' then Inr (JObject [])
      else if s = ''{"verbose":true}'' then Inr (JObject [(''verbose'', JBool True)])
      else if s = ''{"command":"date","verbose":true}''
        then Inr (JObject [(''command'', JString ''date''), (''verbose'', JBool True)])
      else Inl ''invalid character'')\<close>

text \<open>The texts of the type errors, by target.\<close>

definition example_type_error :: "json_target \<Rightarrow> json \<Rightarrow> error" where
  "example_type_error t v =
     (case t of
        Whole_struct \<Rightarrow> ''json: cannot unmarshal value into Go value of type struct''
      | Command_field \<Rightarrow> ''json: cannot unmarshal value into Go struct field .command of type string'')"

text \<open>Subprocesses that all succeed: \<open>date\<close> prints a line, everything else nothing.\<close>

definition example_exec :: "nat \<Rightarrow> string list \<Rightarrow> string \<times> error option" where
  "example_exec n argv = (if argv = [''date''] then (''noon'' @ [CHR 0x0A], None) else ([], None))"


text \<open>The \<open>n\<close>-th request of a model that keeps asking for the time.\<close>

definition time_request :: "nat \<Rightarrow> ToolCall" where
  "time_request n = \<lparr>ID = replicate (Suc n) (CHR ''t''), Name = ''get_time'', Input = ''{}''\<rparr>"

text \<open>A gateway that answers every call with one tool request.\<close>

definition always_tools_env :: env where
  "always_tools_env =
     \<lparr>gateway = (\<lambda>n msgs tls. Inr \<lparr>RContent = [], ToolCalls = [time_request n]\<rparr>),
      exec = example_exec, json_parse = example_json,
      json_type_error = example_type_error\<rparr>"


text \<open>A gateway that answers with neither text nor tool requests.\<close>

definition empty_env :: env where
  "empty_env =
     \<lparr>gateway = (\<lambda>n msgs tls. Inr \<lparr>RContent = [], ToolCalls = []\<rparr>),
      exec = example_exec, json_parse = example_json,
      json_type_error = example_type_error\<rparr>"

text \<open>A gateway whose first answer is a tool request and whose connection then drops.\<close>

definition drop_env :: env where
  "drop_env =
     \<lparr>gateway = (\<lambda>n msgs tls.
         if n = 0 then Inr \<lparr>RContent = [], ToolCalls = [time_request 0]\<rparr>
         else Inl ''failed to send message: connection reset''),
      exec = example_exec, json_parse = example_json,
      json_type_error = example_type_error\<rparr>"

text \<open>The model after the first tool phase of an exchange with \<open>drop_env\<close>.\<close>

definition after_first_tools :: "(string, unit) model" where
  "after_first_tools =
     (typed [])\<lparr>messages := [user_text ''hi'', tool_call_message (time_request 0),
                              tool_result_message (time_request 0) ''noon''],
                thinking := True\<rparr>"

text \<open>A request for a tool that is not registered.\<close>

definition bogus_request :: ToolCall where
  "bogus_request = \<lparr>ID = ''t1'', Name = ''bogus_tool'', Input = ''{}''\<rparr>"

text \<open>
  A gateway whose first answer carries both text and a request for an unregistered
  tool, and whose later answers are text only.
\<close>

definition bogus_env :: env where
  "bogus_env =
     \<lparr>gateway = (\<lambda>n msgs tls.
         if n = 0 then Inr \<lparr>RContent = ''Let me look.'', ToolCalls = [bogus_request]\<rparr>
         else Inr \<lparr>RContent = ''That tool does not exist.'', ToolCalls = []\<rparr>),
      exec = example_exec, json_parse = example_json,
      json_type_error = example_type_error\<rparr>"

text \<open>A gateway that answers every call with a request for the unregistered tool.\<close>

definition always_bogus_env :: env where
  "always_bogus_env =
     \<lparr>gateway = (\<lambda>n msgs tls. Inr \<lparr>RContent = [], ToolCalls = [bogus_request]\<rparr>),
      exec = example_exec, json_parse = example_json,
      json_type_error = example_type_error\<rparr>"

text \<open>The model right after the user has submitted \<open>hi\<close>.\<close>

definition asked :: "(string, unit) model" where
  "asked = (typed [])\<lparr>messages := [user_text ''hi''], thinking := True\<rparr>"

section \<open>Truncation: results\<close>



section \<open>The tool phase\<close>

lemma call_handler_gateway_calls:
  "gateway_calls (snd (call_handler env h inp w)) = gateway_calls w"
  by (cases h)
     (auto simp: executeBash_def executeGetTime_def ExecuteBash_def ExecuteNvidiaSmi_def
        CombinedOutput_def split: sum.splits prod.splits option.splits)

lemma Execute_gateway_calls:
  "gateway_calls (snd (Execute env e toolCall w)) = gateway_calls w"
  by (simp add: Execute_def ToolExecutor_Execute_def call_handler_gateway_calls
      split: option.splits)

lemma execute_tool_calls_gateway_calls:
  "gateway_calls (snd (execute_tool_calls env e calls msgs w)) = gateway_calls w"
proof (induction calls arbitrary: msgs w)
  case Nil
  then show ?case by simp
next
  case (Cons c calls)
  obtain r w1 where ex: "Execute env e c w = (r, w1)"
    by (cases "Execute env e c w")
  then have "gateway_calls w1 = gateway_calls w"
    using Execute_gateway_calls [of env e c w] by simp
  with ex Cons.IH show ?case by simp
qed

lemma execute_tool_calls_append:
  "execute_tool_calls env e calls msgs w =
     (msgs @ fst (execute_tool_calls env e calls [] w), snd (execute_tool_calls env e calls [] w))"
proof (induction calls arbitrary: msgs w)
  case Nil
  then show ?case by simp
next
  case (Cons c calls)
  obtain r w1 where ex: "Execute env e c w = (r, w1)"
    by (cases "Execute env e c w")
  show ?case
    using ex Cons.IH [of "msgs @ [tool_call_message c] @ [tool_result_message c (truncate_result (result_text r))]" w1]
      Cons.IH [of "[] @ [tool_call_message c] @ [tool_result_message c (truncate_result (result_text r))]" w1]
    by simp
qed

lemma execute_tool_calls_turns:
  "map (\<lambda>x. (Role x, ToolCallID x)) (fst (execute_tool_calls env e calls msgs w))
     = map (\<lambda>x. (Role x, ToolCallID x)) msgs @ turn_pairs calls"
proof (induction calls arbitrary: msgs w)
  case Nil
  then show ?case by simp
next
  case (Cons c calls)
  obtain r w1 where ex: "Execute env e c w = (r, w1)"
    by (cases "Execute env e c w")
  show ?case
    using ex Cons.IH [of "msgs @ [tool_call_message c] @ [tool_result_message c (truncate_result (result_text r))]" w1]
    by (simp add: tool_call_message_def tool_result_message_def)
qed

lemma execute_tool_calls_no_text:
  "list_all (\<lambda>x. Role x = ''tool'' \<or> Role x = ''assistant'' \<and> Content x = [])
     (fst (execute_tool_calls env e calls [] w))"
proof (induction calls arbitrary: w)
  case Nil
  then show ?case by simp
next
  case (Cons c calls)
  obtain r w1 where ex: "Execute env e c w = (r, w1)"
    by (cases "Execute env e c w")
  have "execute_tool_calls env e (c # calls) [] w =
          execute_tool_calls env e calls
            ([tool_call_message c, tool_result_message c (truncate_result (result_text r))]) w1"
    using ex by simp
  also have "\<dots> = ([tool_call_message c, tool_result_message c (truncate_result (result_text r))]
                      @ fst (execute_tool_calls env e calls [] w1),
                    snd (execute_tool_calls env e calls [] w1))"
    by (rule execute_tool_calls_append)
  finally show ?case
    using Cons.IH [of w1] by (simp add: tool_call_message_def tool_result_message_def)
qed

section \<open>What the tool phase stores\<close>






section \<open>Transcripts in which every result answers a request\<close>

lemma answered_from_append:
  "answered_from prev (xs @ ys) =
     (answered_from prev xs \<and> answered_from (if xs = [] then prev else Some (last xs)) ys)"
  by (induction xs arbitrary: prev) auto

lemma results_answer_requests_snoc:
  "Role x \<noteq> ''tool'' \<Longrightarrow>
   results_answer_requests (ms @ [x]) = results_answer_requests ms"
  by (simp add: results_answer_requests_def answered_from_append)

lemma results_answer_requests_tool_phase:
  "results_answer_requests msgs \<Longrightarrow>
   results_answer_requests (fst (execute_tool_calls env e calls msgs w))"
proof (induction calls arbitrary: msgs w)
  case Nil
  then show ?case by simp
next
  case (Cons c calls)
  obtain r w1 where ex: "Execute env e c w = (r, w1)"
    by (cases "Execute env e c w")
  have "results_answer_requests
          (msgs @ [tool_call_message c] @ [tool_result_message c (truncate_result (result_text r))])"
    using Cons.prems
    by (simp add: results_answer_requests_def answered_from_append
        tool_call_message_def tool_result_message_def)
  from Cons.IH [OF this, of w1] ex show ?case by simp
qed

section \<open>The loop of sendFinalMessage, case by case\<close>

lemma itoa_maxIterations: "itoa maxIterations = ''5''"
  by code_simp

lemma loop_exhausted:
  "\<not> iteration < maxIterations \<Longrightarrow>
   sendFinalMessage_loop env e iteration msgs w =
     (responseMsg [] msgs
        (Some ''reached maximum iterations (5) - Claude kept calling tools''), w)"
  by (subst sendFinalMessage_loop.simps) (simp add: itoa_maxIterations)

lemma loop_transport_error:
  "iteration < maxIterations \<Longrightarrow>
   gateway env (gateway_calls w) msgs (GetAvailableTools e) = Inl err \<Longrightarrow>
   sendFinalMessage_loop env e iteration msgs w =
     (responseMsg [] msgs (Some (''final response error: '' @ err)),
      w\<lparr>gateway_calls := Suc (gateway_calls w)\<rparr>)"
  by (subst sendFinalMessage_loop.simps) (simp add: SendMessageWithTools_def)

lemma loop_tools:
  "iteration < maxIterations \<Longrightarrow>
   gateway env (gateway_calls w) msgs (GetAvailableTools e) = Inr response \<Longrightarrow>
   ToolCalls response \<noteq> [] \<Longrightarrow>
   sendFinalMessage_loop env e iteration msgs w =
     (case execute_tool_calls env e (ToolCalls response) msgs
             (w\<lparr>gateway_calls := Suc (gateway_calls w)\<rparr>) of
        (msgs', w2) \<Rightarrow> sendFinalMessage_loop env e (Suc iteration) msgs' w2)"
  by (subst sendFinalMessage_loop.simps) (simp add: SendMessageWithTools_def)

lemma loop_text:
  "iteration < maxIterations \<Longrightarrow>
   gateway env (gateway_calls w) msgs (GetAvailableTools e) = Inr response \<Longrightarrow>
   ToolCalls response = [] \<Longrightarrow> RContent response \<noteq> [] \<Longrightarrow>
   sendFinalMessage_loop env e iteration msgs w =
     (responseMsg (RContent response) msgs None, w\<lparr>gateway_calls := Suc (gateway_calls w)\<rparr>)"
  by (subst sendFinalMessage_loop.simps) (simp add: SendMessageWithTools_def)

lemma loop_empty:
  "iteration < maxIterations \<Longrightarrow>
   gateway env (gateway_calls w) msgs (GetAvailableTools e) = Inr response \<Longrightarrow>
   ToolCalls response = [] \<Longrightarrow> RContent response = [] \<Longrightarrow>
   sendFinalMessage_loop env e iteration msgs w =
     (responseMsg [] msgs (Some ''empty response from Claude (no error, just empty content)''),
      w\<lparr>gateway_calls := Suc (gateway_calls w)\<rparr>)"
  by (subst sendFinalMessage_loop.simps) (simp add: SendMessageWithTools_def)

text \<open>
  Induction over the iterations that remain: a property holds of every run of the loop
  when it holds of each way a single iteration can end, given that it holds of the
  rest of the run after a tool phase.
\<close>

lemma loop_cases [consumes 0, case_names exhausted transport_error final_text empty_response tools]:
  assumes "\<And>i msgs w. \<not> i < maxIterations \<Longrightarrow>
             P (responseMsg [] msgs
                  (Some ''reached maximum iterations (5) - Claude kept calling tools''), w) i msgs w"
    and "\<And>i msgs w err. i < maxIterations \<Longrightarrow>
             gateway env (gateway_calls w) msgs (GetAvailableTools e) = Inl err \<Longrightarrow>
             P (responseMsg [] msgs (Some (''final response error: '' @ err)),
                w\<lparr>gateway_calls := Suc (gateway_calls w)\<rparr>) i msgs w"
    and "\<And>i msgs w response. i < maxIterations \<Longrightarrow>
             gateway env (gateway_calls w) msgs (GetAvailableTools e) = Inr response \<Longrightarrow>
             ToolCalls response = [] \<Longrightarrow> RContent response \<noteq> [] \<Longrightarrow>
             P (responseMsg (RContent response) msgs None,
                w\<lparr>gateway_calls := Suc (gateway_calls w)\<rparr>) i msgs w"
    and "\<And>i msgs w response. i < maxIterations \<Longrightarrow>
             gateway env (gateway_calls w) msgs (GetAvailableTools e) = Inr response \<Longrightarrow>
             ToolCalls response = [] \<Longrightarrow> RContent response = [] \<Longrightarrow>
             P (responseMsg [] msgs
                  (Some ''empty response from Claude (no error, just empty content)''),
                w\<lparr>gateway_calls := Suc (gateway_calls w)\<rparr>) i msgs w"
    and "\<And>i msgs w response msgs' w2. i < maxIterations \<Longrightarrow>
             gateway env (gateway_calls w) msgs (GetAvailableTools e) = Inr response \<Longrightarrow>
             ToolCalls response \<noteq> [] \<Longrightarrow>
             execute_tool_calls env e (ToolCalls response) msgs
               (w\<lparr>gateway_calls := Suc (gateway_calls w)\<rparr>) = (msgs', w2) \<Longrightarrow>
             P (sendFinalMessage_loop env e (Suc i) msgs' w2) (Suc i) msgs' w2 \<Longrightarrow>
             P (sendFinalMessage_loop env e (Suc i) msgs' w2) i msgs w"
  shows "P (sendFinalMessage_loop env e i msgs w) i msgs w"
proof (induction "maxIterations - i" arbitrary: i msgs w)
  case 0
  then have "\<not> i < maxIterations" by simp
  then show ?case using assms(1) by (simp add: loop_exhausted)
next
  case (Suc n)
  then have lt: "i < maxIterations" by simp
  show ?case
  proof (cases "gateway env (gateway_calls w) msgs (GetAvailableTools e)")
    case (Inl err)
    with lt show ?thesis using assms(2) by (simp add: loop_transport_error)
  next
    case (Inr response)
    show ?thesis
    proof (cases "ToolCalls response = []")
      case True
      show ?thesis
      proof (cases "RContent response = []")
        case True
        with lt Inr \<open>ToolCalls response = []\<close> show ?thesis
          using assms(4) by (simp add: loop_empty)
      next
        case False
        with lt Inr \<open>ToolCalls response = []\<close> show ?thesis
          using assms(3) by (simp add: loop_text)
      qed
    next
      case False
      obtain msgs' w2 where ex:
        "execute_tool_calls env e (ToolCalls response) msgs
           (w\<lparr>gateway_calls := Suc (gateway_calls w)\<rparr>) = (msgs', w2)"
        by (cases "execute_tool_calls env e (ToolCalls response) msgs
                     (w\<lparr>gateway_calls := Suc (gateway_calls w)\<rparr>)")
      have "n = maxIterations - Suc i" using Suc.hyps(2) by simp
      from Suc.hyps(1) [OF this]
      have "P (sendFinalMessage_loop env e (Suc i) msgs' w2) (Suc i) msgs' w2" .
      from assms(5) [OF lt Inr False ex this] lt Inr False ex show ?thesis
        by (simp add: loop_tools)
    qed
  qed
qed

lemma loop_gateway_calls_upper:
  "gateway_calls (snd (sendFinalMessage_loop env e i msgs w)) \<le> gateway_calls w + (maxIterations - i)"
proof (rule loop_cases
    [where P = "\<lambda>r i msgs w. gateway_calls (snd r) \<le> gateway_calls w + (maxIterations - i)"], goal_cases)
  case tools: (5 i msgs w response msgs' w2)
  have "gateway_calls w2 = Suc (gateway_calls w)"
    using execute_tool_calls_gateway_calls
      [of env e "ToolCalls response" msgs "w\<lparr>gateway_calls := Suc (gateway_calls w)\<rparr>"] tools(4)
    by simp
  with tools show ?case by simp
qed auto

lemma loop_gateway_calls_lower:
  "gateway_calls w \<le> gateway_calls (snd (sendFinalMessage_loop env e i msgs w))"
proof (rule loop_cases [where P = "\<lambda>r i msgs w. gateway_calls w \<le> gateway_calls (snd r)"], goal_cases)
  case tools: (5 i msgs w response msgs' w2)
  have "gateway_calls w2 = Suc (gateway_calls w)"
    using execute_tool_calls_gateway_calls
      [of env e "ToolCalls response" msgs "w\<lparr>gateway_calls := Suc (gateway_calls w)\<rparr>"] tools(4)
    by simp
  with tools show ?case by simp
qed auto

lemma loop_shape:
  "\<exists>c ms err. fst (sendFinalMessage_loop env e i msgs w) = responseMsg c ms err"
  by (rule loop_cases [where P = "\<lambda>r i msgs w. \<exists>c ms err. fst r = responseMsg c ms err"]) auto

lemma loop_results_answer_requests:
  "results_answer_requests msgs \<longrightarrow>
   (\<forall>c ms err. fst (sendFinalMessage_loop env e i msgs w) = responseMsg c ms err \<longrightarrow>
      results_answer_requests ms)"
proof (rule loop_cases
    [where P = "\<lambda>r i msgs w. results_answer_requests msgs \<longrightarrow>
                  (\<forall>c ms err. fst r = responseMsg c ms err \<longrightarrow> results_answer_requests ms)"], goal_cases)
  case tools: (5 i msgs w response msgs' w2)
  show ?case
  proof
    assume "results_answer_requests msgs"
    then have "results_answer_requests msgs'"
      using results_answer_requests_tool_phase
        [of msgs env e "ToolCalls response" "w\<lparr>gateway_calls := Suc (gateway_calls w)\<rparr>"] tools(4)
      by simp
    with tools(5) show "\<forall>c ms err. fst (sendFinalMessage_loop env e (Suc i) msgs' w2) = responseMsg c ms err \<longrightarrow>
      results_answer_requests ms" by simp
  qed
qed auto

section \<open>sendMessage, case by case\<close>

lemma sendMessage_transport_error:
  "gateway env (gateway_calls w) (messages m) (GetAvailableTools (executor m)) = Inl err \<Longrightarrow>
   sendMessage env m w =
     (responseMsg [] [] (Some err), w\<lparr>gateway_calls := Suc (gateway_calls w)\<rparr>)"
  by (simp add: sendMessage_def SendMessageWithTools_def)

lemma sendMessage_text:
  "gateway env (gateway_calls w) (messages m) (GetAvailableTools (executor m)) = Inr response \<Longrightarrow>
   ToolCalls response = [] \<Longrightarrow>
   sendMessage env m w =
     (responseMsg (RContent response) (messages m) None,
      w\<lparr>gateway_calls := Suc (gateway_calls w)\<rparr>)"
  by (simp add: sendMessage_def SendMessageWithTools_def)

lemma sendMessage_tools:
  "gateway env (gateway_calls w) (messages m) (GetAvailableTools (executor m)) = Inr response \<Longrightarrow>
   ToolCalls response \<noteq> [] \<Longrightarrow>
   sendMessage env m w =
     (case execute_tool_calls env (executor m) (ToolCalls response) (messages m)
             (w\<lparr>gateway_calls := Suc (gateway_calls w)\<rparr>) of
        (msgs, w2) \<Rightarrow> (toolExecutedMsg msgs, w2))"
  by (simp add: sendMessage_def SendMessageWithTools_def)

lemma sendMessage_gateway_calls:
  "gateway_calls (snd (sendMessage env m w)) = Suc (gateway_calls w)"
proof (cases "gateway env (gateway_calls w) (messages m) (GetAvailableTools (executor m))")
  case (Inl err)
  then show ?thesis by (simp add: sendMessage_transport_error)
next
  case (Inr response)
  show ?thesis
  proof (cases "ToolCalls response = []")
    case True
    with Inr show ?thesis by (simp add: sendMessage_text)
  next
    case False
    with Inr show ?thesis
      using execute_tool_calls_gateway_calls
        [of env "executor m" "ToolCalls response" "messages m"
            "w\<lparr>gateway_calls := Suc (gateway_calls w)\<rparr>"]
      by (auto simp: sendMessage_tools split: prod.splits)
  qed
qed

lemma sendMessage_shape:
  "(\<exists>c ms err. fst (sendMessage env m w) = responseMsg c ms err
      \<and> (ms = [] \<or> ms = messages m))
   \<or> (\<exists>ms. fst (sendMessage env m w) = toolExecutedMsg ms
         \<and> (results_answer_requests (messages m) \<longrightarrow> results_answer_requests ms))"
proof (cases "gateway env (gateway_calls w) (messages m) (GetAvailableTools (executor m))")
  case (Inl err)
  then show ?thesis by (simp add: sendMessage_transport_error)
next
  case (Inr response)
  show ?thesis
  proof (cases "ToolCalls response = []")
    case True
    with Inr show ?thesis by (simp add: sendMessage_text)
  next
    case False
    with Inr show ?thesis
      using results_answer_requests_tool_phase
        [of "messages m" env "executor m" "ToolCalls response"
            "w\<lparr>gateway_calls := Suc (gateway_calls w)\<rparr>"]
      by (auto simp: sendMessage_tools split: prod.splits)
  qed
qed

section \<open>Update, message by message\<close>

lemma Update_Enter:
  "Update ui (KeyMsg KeyEnter) m =
     (let m0 = m\<lparr>input := input_Update ui (KeyMsg KeyEnter) (input m),
                  viewport := viewport_Update ui (KeyMsg KeyEnter) (viewport m)\<rparr>
      in if thinking m \<or> TrimSpace (input_Value ui (input m0)) = [] then (m0, None)
         else (let m3 = refresh ui
                          (m0\<lparr>messages := messages m0 @ [user_text (TrimSpace (input_Value ui (input m0)))],
                              input := input_Reset ui (input m0), thinking := True\<rparr>)
               in (m3, Some (Cmd_sendMessage m3))))"
  by (simp add: Update_def Let_def)

lemma Update_Enter_messages:
  "messages (fst (Update ui (KeyMsg KeyEnter) m)) =
     (if thinking m
         \<or> TrimSpace (input_Value ui (input_Update ui (KeyMsg KeyEnter) (input m))) = []
      then messages m
      else messages m
             @ [user_text (TrimSpace (input_Value ui (input_Update ui (KeyMsg KeyEnter) (input m))))])"
  by (simp add: Update_Enter Let_def refresh_def)

lemma Update_responseMsg_cmd: "snd (Update ui (responseMsg c ms err) m) = None"
  by (simp add: Update_def Let_def)

lemma Update_responseMsg_messages:
  "messages (fst (Update ui (responseMsg c ms err) m)) =
     (case err of
        Some e \<Rightarrow> messages m @ [assistant_text (''Error: '' @ e)]
      | None \<Rightarrow> (if ms \<noteq> [] then ms else messages m) @ [assistant_text c])"
  by (simp add: Update_def Let_def refresh_def split: option.splits)

lemma Update_toolExecutedMsg:
  "Update ui (toolExecutedMsg ms) m =
     (let m1 = refresh ui (m\<lparr>input := input_Update ui (toolExecutedMsg ms) (input m),
                             viewport := viewport_Update ui (toolExecutedMsg ms) (viewport m),
                             messages := ms\<rparr>)
      in (m1, Some (Cmd_sendFinalMessage m1)))"
  by (simp add: Update_def Let_def)

section \<open>The shape of an exchange\<close>

lemma exchange_shapes:
  "(\<exists>m'. exchange ui env m w = Some (m', w) \<and> Update ui (KeyMsg KeyEnter) m = (m', None))
   \<or> (\<exists>m1 c ms err w1.
         Update ui (KeyMsg KeyEnter) m = (m1, Some (Cmd_sendMessage m1))
         \<and> sendMessage env m1 w = (responseMsg c ms err, w1)
         \<and> exchange ui env m w = Some (fst (Update ui (responseMsg c ms err) m1), w1))
   \<or> (\<exists>m1 ms w1 m2 c ms2 err w2.
         Update ui (KeyMsg KeyEnter) m = (m1, Some (Cmd_sendMessage m1))
         \<and> sendMessage env m1 w = (toolExecutedMsg ms, w1)
         \<and> Update ui (toolExecutedMsg ms) m1 = (m2, Some (Cmd_sendFinalMessage m2))
         \<and> sendFinalMessage env m2 w1 = (responseMsg c ms2 err, w2)
         \<and> exchange ui env m w = Some (fst (Update ui (responseMsg c ms2 err) m2), w2))"
proof (cases "snd (Update ui (KeyMsg KeyEnter) m)")
  case None
  then obtain m' where u: "Update ui (KeyMsg KeyEnter) m = (m', None)"
    by (cases "Update ui (KeyMsg KeyEnter) m") auto
  then have "exchange ui env m w = Some (m', w)"
    by (simp add: exchange_def)
  with u show ?thesis by blast
next
  case (Some cmd)
  then obtain m1 where u: "Update ui (KeyMsg KeyEnter) m = (m1, Some (Cmd_sendMessage m1))"
    by (auto simp: Update_Enter Let_def split: if_splits)
  obtain msg w1 where sm: "sendMessage env m1 w = (msg, w1)"
    by (cases "sendMessage env m1 w")
  from sendMessage_shape [of env m1 w] sm
  consider (resp) c ms err where "msg = responseMsg c ms err"
    | (tool) ms where "msg = toolExecutedMsg ms"
    by auto
  then show ?thesis
  proof cases
    case resp
    obtain mr where ur: "Update ui (responseMsg c ms err) m1 = (mr, None)"
      using Update_responseMsg_cmd [of ui c ms err m1]
      by (cases "Update ui (responseMsg c ms err) m1") auto
    have "exchange ui env m w = Some (mr, w1)"
      using u sm resp ur by (simp add: exchange_def numeral_2_eq_2)
    with ur have "exchange ui env m w = Some (fst (Update ui (responseMsg c ms err) m1), w1)"
      by simp
    with u sm resp show ?thesis by blast
  next
    case tool
    obtain m2 where u2: "Update ui (toolExecutedMsg ms) m1 = (m2, Some (Cmd_sendFinalMessage m2))"
      by (simp add: Update_toolExecutedMsg Let_def)
    obtain msg2 w2 where sf: "sendFinalMessage env m2 w1 = (msg2, w2)"
      by (cases "sendFinalMessage env m2 w1")
    from loop_shape [of env "executor m2" 0 "messages m2" w1] sf
    obtain c ms2 err where r: "msg2 = responseMsg c ms2 err"
      by (auto simp: sendFinalMessage_def)
    obtain mr where ur: "Update ui (responseMsg c ms2 err) m2 = (mr, None)"
      using Update_responseMsg_cmd [of ui c ms2 err m2]
      by (cases "Update ui (responseMsg c ms2 err) m2") auto
    have "exchange ui env m w = Some (mr, w2)"
      using u sm tool u2 sf r ur by (simp add: exchange_def numeral_2_eq_2)
    with ur have "exchange ui env m w = Some (fst (Update ui (responseMsg c ms2 err) m2), w2)"
      by simp
    with u sm tool u2 sf r show ?thesis by blast
  qed
qed

lemma exchange_gateway_calls:
  "\<exists>m' w'. exchange ui env m w = Some (m', w')
      \<and> gateway_calls w' \<le> gateway_calls w + 1 + maxIterations"
  using exchange_shapes [of ui env m w]
proof (elim disjE exE conjE)
  fix m' assume "exchange ui env m w = Some (m', w)"
  then show ?thesis by auto
next
  fix m1 c ms err w1
  assume sm: "sendMessage env m1 w = (responseMsg c ms err, w1)"
    and ex: "exchange ui env m w = Some (fst (Update ui (responseMsg c ms err) m1), w1)"
  from sm sendMessage_gateway_calls [of env m1 w]
  have "gateway_calls w1 = Suc (gateway_calls w)" by simp
  with ex show ?thesis by auto
next
  fix m1 ms w1 m2 c ms2 err w2
  assume sm: "sendMessage env m1 w = (toolExecutedMsg ms, w1)"
    and sf: "sendFinalMessage env m2 w1 = (responseMsg c ms2 err, w2)"
    and ex: "exchange ui env m w = Some (fst (Update ui (responseMsg c ms2 err) m2), w2)"
  from sm sendMessage_gateway_calls [of env m1 w]
  have g1: "gateway_calls w1 = Suc (gateway_calls w)" by simp
  from sf loop_gateway_calls_upper [of env "executor m2" 0 "messages m2" w1]
  have "gateway_calls w2 \<le> gateway_calls w1 + maxIterations"
    by (simp add: sendFinalMessage_def)
  with g1 ex show ?thesis by auto
qed

lemma exchange_results_answer_requests:
  assumes inv: "results_answer_requests (messages m)"
    and ex: "exchange ui env m w = Some (m', w')"
  shows "results_answer_requests (messages m')"
proof -
  have user: "results_answer_requests (messages (fst (Update ui (KeyMsg KeyEnter) m)))"
    using inv by (simp add: Update_Enter_messages results_answer_requests_snoc user_text_def)
  have resp: "results_answer_requests (messages (fst (Update ui (responseMsg c ms err) mm)))"
    if "results_answer_requests (messages mm)" "results_answer_requests ms"
    for c ms err mm
    using that
    by (simp add: Update_responseMsg_messages results_answer_requests_snoc assistant_text_def
        split: option.splits)
  have nil: "results_answer_requests []"
    by (simp add: results_answer_requests_def)
  from exchange_shapes [of ui env m w] show ?thesis
  proof (elim disjE exE conjE)
    fix m'' assume "exchange ui env m w = Some (m'', w)"
      and "Update ui (KeyMsg KeyEnter) m = (m'', None)"
    with ex user show ?thesis by simp
  next
    fix m1 c ms err w1
    assume u: "Update ui (KeyMsg KeyEnter) m = (m1, Some (Cmd_sendMessage m1))"
      and sm: "sendMessage env m1 w = (responseMsg c ms err, w1)"
      and e: "exchange ui env m w = Some (fst (Update ui (responseMsg c ms err) m1), w1)"
    from u user have m1: "results_answer_requests (messages m1)" by simp
    from sendMessage_shape [of env m1 w] sm have "ms = [] \<or> ms = messages m1" by simp
    with m1 nil have "results_answer_requests ms" by auto
    from resp [OF m1 this] e ex show ?thesis by simp
  next
    fix m1 ms w1 m2 c ms2 err w2
    assume u: "Update ui (KeyMsg KeyEnter) m = (m1, Some (Cmd_sendMessage m1))"
      and sm: "sendMessage env m1 w = (toolExecutedMsg ms, w1)"
      and u2: "Update ui (toolExecutedMsg ms) m1 = (m2, Some (Cmd_sendFinalMessage m2))"
      and sf: "sendFinalMessage env m2 w1 = (responseMsg c ms2 err, w2)"
      and e: "exchange ui env m w = Some (fst (Update ui (responseMsg c ms2 err) m2), w2)"
    from u user have m1: "results_answer_requests (messages m1)" by simp
    from sendMessage_shape [of env m1 w] sm m1 have ms: "results_answer_requests ms" by simp
    from u2 have "messages m2 = ms"
      by (auto simp: Update_toolExecutedMsg Let_def refresh_def)
    with ms have m2: "results_answer_requests (messages m2)" by simp
    from loop_results_answer_requests [of "messages m2" env "executor m2" 0 w1] m2 sf
    have "results_answer_requests ms2" by (simp add: sendFinalMessage_def)
    from resp [OF m2 this] e ex show ?thesis by simp
  qed
qed

section \<open>Tool failures\<close>

lemma TrimSpace_hi: "TrimSpace ''hi'' = ''hi''"
  by code_simp

lemma Update_Enter_typed_hi:
  "Update plain_widgets (KeyMsg KeyEnter) (typed ''hi'') = (asked, Some (Cmd_sendMessage asked))"
  by (simp add: Update_Enter Let_def typed_def New_def asked_def plain_widgets_def refresh_def
      TrimSpace_hi)

lemma loop_gateway_calls_at_least_one:
  assumes "i < maxIterations"
  shows "Suc (gateway_calls w) \<le> gateway_calls (snd (sendFinalMessage_loop env e i msgs w))"
proof (cases "gateway env (gateway_calls w) msgs (GetAvailableTools e)")
  case (Inl err)
  with assms show ?thesis by (simp add: loop_transport_error)
next
  case (Inr response)
  show ?thesis
  proof (cases "ToolCalls response = []")
    case True
    with assms Inr show ?thesis
      by (cases "RContent response = []") (simp_all add: loop_empty loop_text)
  next
    case False
    obtain msgs' w2 where ex:
      "execute_tool_calls env e (ToolCalls response) msgs
         (w\<lparr>gateway_calls := Suc (gateway_calls w)\<rparr>) = (msgs', w2)"
      by (cases "execute_tool_calls env e (ToolCalls response) msgs
                   (w\<lparr>gateway_calls := Suc (gateway_calls w)\<rparr>)")
    have "gateway_calls w2 = Suc (gateway_calls w)"
      using execute_tool_calls_gateway_calls
        [of env e "ToolCalls response" msgs "w\<lparr>gateway_calls := Suc (gateway_calls w)\<rparr>"] ex
      by simp
    with loop_gateway_calls_lower [of w2 env e "Suc i" msgs'] assms Inr False ex
    show ?thesis by (simp add: loop_tools)
  qed
qed

lemma loop_continues:
  assumes "gateway env (gateway_calls w) msgs (GetAvailableTools e) = Inr response"
    and "ToolCalls response \<noteq> []" and "Suc i < maxIterations"
  shows "gateway_calls w + 2 \<le> gateway_calls (snd (sendFinalMessage_loop env e i msgs w))"
proof -
  obtain msgs' w2 where ex:
    "execute_tool_calls env e (ToolCalls response) msgs
       (w\<lparr>gateway_calls := Suc (gateway_calls w)\<rparr>) = (msgs', w2)"
    by (cases "execute_tool_calls env e (ToolCalls response) msgs
                 (w\<lparr>gateway_calls := Suc (gateway_calls w)\<rparr>)")
  have g: "gateway_calls w2 = Suc (gateway_calls w)"
    using execute_tool_calls_gateway_calls
      [of env e "ToolCalls response" msgs "w\<lparr>gateway_calls := Suc (gateway_calls w)\<rparr>"] ex
    by simp
  have "sendFinalMessage_loop env e i msgs w = sendFinalMessage_loop env e (Suc i) msgs' w2"
    using assms ex by (simp add: loop_tools)
  with loop_gateway_calls_at_least_one [OF assms(3), of w2 env e msgs'] g
  show ?thesis by simp
qed

lemma exchange_continues:
  assumes u: "Update ui (KeyMsg KeyEnter) m0 = (m, Some (Cmd_sendMessage m))"
    and gw: "gateway env (gateway_calls w) (messages m) (GetAvailableTools (executor m)) = Inr response"
    and tc: "ToolCalls response \<noteq> []"
  shows "\<exists>m' w'. exchange ui env m0 w = Some (m', w') \<and> gateway_calls w + 2 \<le> gateway_calls w'"
proof -
  have sm: "\<exists>ms. fst (sendMessage env m w) = toolExecutedMsg ms"
    using gw tc by (auto simp: sendMessage_tools split: prod.splits)
  from exchange_shapes [of ui env m0 w] show ?thesis
  proof (elim disjE exE conjE)
    fix m' assume "Update ui (KeyMsg KeyEnter) m0 = (m', None)"
    with u show ?thesis by simp
  next
    fix m1 c ms err w1
    assume "Update ui (KeyMsg KeyEnter) m0 = (m1, Some (Cmd_sendMessage m1))"
      and "sendMessage env m1 w = (responseMsg c ms err, w1)"
    with u sm show ?thesis by auto
  next
    fix m1 ms w1 m2 c ms2 err w2
    assume u1: "Update ui (KeyMsg KeyEnter) m0 = (m1, Some (Cmd_sendMessage m1))"
      and s1: "sendMessage env m1 w = (toolExecutedMsg ms, w1)"
      and sf: "sendFinalMessage env m2 w1 = (responseMsg c ms2 err, w2)"
      and e: "exchange ui env m0 w = Some (fst (Update ui (responseMsg c ms2 err) m2), w2)"
    from s1 sendMessage_gateway_calls [of env m1 w]
    have g1: "gateway_calls w1 = Suc (gateway_calls w)" by simp
    have "0 < maxIterations" by (simp add: maxIterations_def)
    from loop_gateway_calls_at_least_one [OF this, of w1 env "executor m2" "messages m2"] sf
    have "Suc (gateway_calls w1) \<le> gateway_calls w2" by (simp add: sendFinalMessage_def)
    with g1 e show ?thesis by auto
  qed
qed

text \<open>
  C4, as stated, fails: a tool that fails in the fifth iteration of sendFinalMessage is
  not followed by another gateway call. With a gateway that always asks for an
  unregistered tool, the exchange makes six gateway calls, each answered by a failing
  tool, and then ends with the iteration error.
\<close>

theorem C4_last_iteration_counterexample:
  "Execute always_bogus_env tools_New bogus_request start
     = (Inl ''tool not found: bogus_tool'', start)
   \<and> map_option snd (exchange plain_widgets always_bogus_env (typed ''hi'') start)
       = Some \<lparr>gateway_calls = 6, exec_calls = 0\<rparr>
   \<and> map_option (last \<circ> messages \<circ> fst)
         (exchange plain_widgets always_bogus_env (typed ''hi'') start)
       = Some (assistant_text ''Error: reached maximum iterations (5) - Claude kept calling tools'')"
  by code_simp

text \<open>
  C4, amended: a failing tool invocation does not by itself end the loop. Whatever
  error \<open>Execute\<close> returns (an unregistered name gives \<open>tool not found: <name>\<close>; a
  handler gives \<open>invalid input: ...\<close> or \<open>command failed: ...\<close>), the tool phase
  stores \<open>Error: <error>\<close> as the content of the tool-result turn and goes on with the
  remaining tool calls; after the tool phase the loop goes to its next gateway call
  whenever the iteration bound allows one: always after sendMessage, and inside
  sendFinalMessage while an iteration remains.
\<close>

theorem C4_tool_failure_not_fatal:
  "(Execute env e toolCall w = (Inl err, w1) \<longrightarrow>
      execute_tool_calls env e (toolCall # rest) msgs w =
        execute_tool_calls env e rest
          (msgs @ [tool_call_message toolCall,
                   tool_result_message toolCall (truncate_result (''Error: '' @ err))]) w1)
   \<and> (tools (ai_executor e) (Name toolCall) = None \<longrightarrow>
        Execute env e toolCall w = (Inl (''tool not found: '' @ Name toolCall), w))
   \<and> (gateway env (gateway_calls w) msgs (GetAvailableTools e) = Inr response
        \<and> ToolCalls response \<noteq> [] \<and> Suc i < maxIterations \<longrightarrow>
        gateway_calls w + 2 \<le> gateway_calls (snd (sendFinalMessage_loop env e i msgs w)))
   \<and> (Update ui (KeyMsg KeyEnter) m0 = (m, Some (Cmd_sendMessage m))
        \<and> gateway env (gateway_calls w) (messages m) (GetAvailableTools (executor m)) = Inr response
        \<and> ToolCalls response \<noteq> [] \<longrightarrow>
        (\<exists>m' w'. exchange ui env m0 w = Some (m', w') \<and> gateway_calls w + 2 \<le> gateway_calls w'))"
proof (intro conjI impI)
  assume "Execute env e toolCall w = (Inl err, w1)"
  then show "execute_tool_calls env e (toolCall # rest) msgs w =
        execute_tool_calls env e rest
          (msgs @ [tool_call_message toolCall,
                   tool_result_message toolCall (truncate_result (''Error: '' @ err))]) w1"
    by (simp add: result_text_def)
next
  assume "tools (ai_executor e) (Name toolCall) = None"
  then show "Execute env e toolCall w = (Inl (''tool not found: '' @ Name toolCall), w)"
    by (simp add: Execute_def ToolExecutor_Execute_def)
next
  assume "gateway env (gateway_calls w) msgs (GetAvailableTools e) = Inr response
        \<and> ToolCalls response \<noteq> [] \<and> Suc i < maxIterations"
  then show "gateway_calls w + 2 \<le> gateway_calls (snd (sendFinalMessage_loop env e i msgs w))"
    using loop_continues [of env w msgs e response i] by simp
next
  assume "Update ui (KeyMsg KeyEnter) m0 = (m, Some (Cmd_sendMessage m))
        \<and> gateway env (gateway_calls w) (messages m) (GetAvailableTools (executor m)) = Inr response
        \<and> ToolCalls response \<noteq> []"
  then show "\<exists>m' w'. exchange ui env m0 w = Some (m', w') \<and> gateway_calls w + 2 \<le> gateway_calls w'"
    using exchange_continues [of ui m0 m env w response] by simp
qed

theorem C4_tool_failure_not_fatal_witness:
  "tools (ai_executor tools_New) (Name bogus_request) = None
   \<and> Execute bogus_env tools_New bogus_request start = (Inl ''tool not found: bogus_tool'', start)
   \<and> execute_tool_calls bogus_env tools_New [bogus_request] [user_text ''hi''] start =
        ([user_text ''hi'', tool_call_message bogus_request,
          tool_result_message bogus_request ''Error: tool not found: bogus_tool''], start)
   \<and> gateway bogus_env (gateway_calls start) [user_text ''hi''] (GetAvailableTools tools_New)
        = Inr \<lparr>RContent = ''Let me look.'', ToolCalls = [bogus_request]\<rparr>
   \<and> Suc 0 < maxIterations
   \<and> gateway_calls start + 2
        \<le> gateway_calls (snd (sendFinalMessage_loop bogus_env tools_New 0 [user_text ''hi''] start))
   \<and> Update plain_widgets (KeyMsg KeyEnter) (typed ''hi'') = (asked, Some (Cmd_sendMessage asked))
   \<and> (\<exists>m' w'. exchange plain_widgets bogus_env (typed ''hi'') start = Some (m', w')
         \<and> gateway_calls start + 2 \<le> gateway_calls w')"
proof -
  let ?r = "\<lparr>RContent = ''Let me look.'', ToolCalls = [bogus_request]\<rparr>"
  note c4 = C4_tool_failure_not_fatal
    [where env = bogus_env and e = tools_New and toolCall = bogus_request and w = start
       and err = "''tool not found: bogus_tool''" and ?w1.0 = start and rest = "[]"
       and msgs = "[user_text ''hi'']" and response = ?r and i = 0
       and ui = plain_widgets and ?m0.0 = "typed ''hi''" and m = asked]
  have nf: "tools (ai_executor tools_New) (Name bogus_request) = None"
    by code_simp
  have ex: "Execute bogus_env tools_New bogus_request start = (Inl ''tool not found: bogus_tool'', start)"
    using c4 nf by (simp add: bogus_request_def)
  have tr: "truncate_result ''Error: tool not found: bogus_tool'' = ''Error: tool not found: bogus_tool''"
    by (simp add: truncate_result_def)
  have ph: "execute_tool_calls bogus_env tools_New [bogus_request] [user_text ''hi''] start =
        ([user_text ''hi'', tool_call_message bogus_request,
          tool_result_message bogus_request ''Error: tool not found: bogus_tool''], start)"
    using c4 ex by (simp add: tr)
  have gw: "gateway bogus_env (gateway_calls start) [user_text ''hi''] (GetAvailableTools tools_New) = Inr ?r"
    by (simp add: bogus_env_def start_def)
  have gw': "gateway bogus_env (gateway_calls start) (messages asked) (GetAvailableTools (executor asked)) = Inr ?r"
    by (simp add: bogus_env_def start_def)
  have mx: "Suc 0 < maxIterations"
    by (simp add: maxIterations_def)
  have lp: "gateway_calls start + 2
        \<le> gateway_calls (snd (sendFinalMessage_loop bogus_env tools_New 0 [user_text ''hi''] start))"
    using c4 gw mx by simp
  have xc: "\<exists>m' w'. exchange plain_widgets bogus_env (typed ''hi'') start = Some (m', w')
         \<and> gateway_calls start + 2 \<le> gateway_calls w'"
    using c4 gw' Update_Enter_typed_hi by simp
  from nf ex ph gw mx lp Update_Enter_typed_hi xc show ?thesis by blast
qed

section \<open>The iteration bound and the pairing of results with requests\<close>

text \<open>
  C1, as stated, fails: with a gateway that always asks for a tool, one exchange makes
  six gateway calls, each followed by a tool execution.
\<close>

theorem C1_six_cycles_counterexample:
  "map_option snd (exchange plain_widgets always_tools_env (typed ''hi'') start)
     = Some \<lparr>gateway_calls = 6, exec_calls = 6\<rparr>"
  by code_simp

text \<open>
  C1, amended: one exchange makes at most 1 + 5 gateway calls, hence at most six
  cycles: one in sendMessage and at most \<open>maxIterations\<close> = 5 in sendFinalMessage.
  When the fifth response inside sendFinalMessage still carries tool requests, those
  tools are executed and their turns appended, and then the loop ends with the error
  \<open>reached maximum iterations (5) - Claude kept calling tools\<close>, without another
  gateway call; the failure result carries the transcript reached.
\<close>

theorem C1_iteration_bound:
  "maxIterations = 5
   \<and> gateway_calls (snd (sendFinalMessage env m w)) \<le> gateway_calls w + maxIterations
   \<and> (\<exists>m' w'. exchange ui env m w = Some (m', w')
         \<and> gateway_calls w' \<le> gateway_calls w + 1 + maxIterations)
   \<and> (gateway env (gateway_calls w) msgs (GetAvailableTools e) = Inr response
        \<and> ToolCalls response \<noteq> [] \<longrightarrow>
      sendFinalMessage_loop env e 4 msgs w =
        (case execute_tool_calls env e (ToolCalls response) msgs
                (w\<lparr>gateway_calls := Suc (gateway_calls w)\<rparr>) of
           (msgs', w2) \<Rightarrow>
             (responseMsg [] msgs'
                (Some ''reached maximum iterations (5) - Claude kept calling tools''), w2)))"
proof (intro conjI impI)
  show "maxIterations = 5" by (simp add: maxIterations_def)
next
  show "gateway_calls (snd (sendFinalMessage env m w)) \<le> gateway_calls w + maxIterations"
    using loop_gateway_calls_upper [of env "executor m" 0 "messages m" w]
    by (simp add: sendFinalMessage_def)
next
  show "\<exists>m' w'. exchange ui env m w = Some (m', w')
         \<and> gateway_calls w' \<le> gateway_calls w + 1 + maxIterations"
    by (rule exchange_gateway_calls)
next
  assume a: "gateway env (gateway_calls w) msgs (GetAvailableTools e) = Inr response
        \<and> ToolCalls response \<noteq> []"
  have "(4::nat) < maxIterations" "\<not> Suc 4 < maxIterations"
    by (simp_all add: maxIterations_def)
  with a show "sendFinalMessage_loop env e 4 msgs w =
        (case execute_tool_calls env e (ToolCalls response) msgs
                (w\<lparr>gateway_calls := Suc (gateway_calls w)\<rparr>) of
           (msgs', w2) \<Rightarrow>
             (responseMsg [] msgs'
                (Some ''reached maximum iterations (5) - Claude kept calling tools''), w2))"
    by (simp add: loop_tools loop_exhausted split: prod.splits)
qed

theorem C1_iteration_bound_witness:
  "gateway always_tools_env (gateway_calls start) [user_text ''hi''] (GetAvailableTools tools_New)
     = Inr \<lparr>RContent = [], ToolCalls = [time_request 0]\<rparr>
   \<and> ToolCalls \<lparr>RContent = [], ToolCalls = [time_request 0]\<rparr> \<noteq> []
   \<and> sendFinalMessage_loop always_tools_env tools_New 4 [user_text ''hi''] start =
       (responseMsg []
          [user_text ''hi'', tool_call_message (time_request 0),
           tool_result_message (time_request 0) ''noon'']
          (Some ''reached maximum iterations (5) - Claude kept calling tools''),
        \<lparr>gateway_calls = 1, exec_calls = 1\<rparr>)"
proof -
  let ?r = "\<lparr>RContent = [], ToolCalls = [time_request 0]\<rparr>"
  have gw: "gateway always_tools_env (gateway_calls start) [user_text ''hi'']
              (GetAvailableTools tools_New) = Inr ?r"
    by (simp add: always_tools_env_def start_def)
  have ph: "execute_tool_calls always_tools_env tools_New [time_request 0] [user_text ''hi'']
              (start\<lparr>gateway_calls := Suc (gateway_calls start)\<rparr>)
            = ([user_text ''hi'', tool_call_message (time_request 0),
                tool_result_message (time_request 0) ''noon''],
               \<lparr>gateway_calls = 1, exec_calls = 1\<rparr>)"
    by code_simp
  have hyp: "gateway always_tools_env (gateway_calls start) [user_text ''hi'']
               (GetAvailableTools tools_New) = Inr ?r \<and> ToolCalls ?r \<noteq> []"
    using gw by simp
  have tc: "ToolCalls ?r = [time_request 0]"
    by simp
  note step = C1_iteration_bound
    [where env = always_tools_env and w = start and msgs = "[user_text ''hi'']"
       and e = tools_New and response = ?r,
     THEN conjunct2, THEN conjunct2, THEN conjunct2, THEN mp, OF hyp]
  from step [unfolded tc ph] gw show ?thesis
    by simp
qed

text \<open>
  C3: every tool-result turn comes immediately after an assistant turn that carries
  the same call ID. This holds of the empty transcript the program starts with; an
  exchange keeps it, in the model it leaves and in the transcripts its results carry;
  and the turns the tool phase appends are, for each tool call in the order the
  provider gave, the request and then its result.
\<close>

theorem C3_results_answer_requests:
  "results_answer_requests (messages (New ta vp))
   \<and> (results_answer_requests (messages m) \<longrightarrow>
        (\<forall>m' w'. exchange ui env m w = Some (m', w') \<longrightarrow> results_answer_requests (messages m'))
        \<and> (\<forall>c ms err. fst (sendMessage env m w) = responseMsg c ms err \<longrightarrow>
              results_answer_requests ms)
        \<and> (\<forall>ms. fst (sendMessage env m w) = toolExecutedMsg ms \<longrightarrow> results_answer_requests ms)
        \<and> (\<forall>c ms err. fst (sendFinalMessage env m w) = responseMsg c ms err \<longrightarrow>
              results_answer_requests ms))
   \<and> map (\<lambda>x. (Role x, ToolCallID x)) (fst (execute_tool_calls env e calls msgs w))
       = map (\<lambda>x. (Role x, ToolCallID x)) msgs @ turn_pairs calls"
proof (intro conjI impI allI)
  show "results_answer_requests (messages (New ta vp))"
    by (simp add: New_def results_answer_requests_def)
next
  fix m' w'
  assume "results_answer_requests (messages m)" "exchange ui env m w = Some (m', w')"
  then show "results_answer_requests (messages m')"
    by (rule exchange_results_answer_requests)
next
  fix c ms err
  assume inv: "results_answer_requests (messages m)"
    and r: "fst (sendMessage env m w) = responseMsg c ms err"
  from sendMessage_shape [of env m w] r have "ms = [] \<or> ms = messages m" by simp
  with inv show "results_answer_requests ms"
    by (auto simp: results_answer_requests_def)
next
  fix ms
  assume "results_answer_requests (messages m)" "fst (sendMessage env m w) = toolExecutedMsg ms"
  with sendMessage_shape [of env m w] show "results_answer_requests ms" by simp
next
  fix c ms err
  assume "results_answer_requests (messages m)"
    "fst (sendFinalMessage env m w) = responseMsg c ms err"
  with loop_results_answer_requests [of "messages m" env "executor m" 0 w]
  show "results_answer_requests ms" by (simp add: sendFinalMessage_def)
next
  show "map (\<lambda>x. (Role x, ToolCallID x)) (fst (execute_tool_calls env e calls msgs w))
       = map (\<lambda>x. (Role x, ToolCallID x)) msgs @ turn_pairs calls"
    by (rule execute_tool_calls_turns)
qed

theorem C3_results_answer_requests_witness:
  "results_answer_requests (messages (typed ''hi''))
   \<and> exchange plain_widgets drop_env (typed ''hi'') start \<noteq> None
   \<and> results_answer_requests (messages (fst (the (exchange plain_widgets drop_env (typed ''hi'') start))))
   \<and> messages (fst (the (exchange plain_widgets drop_env (typed ''hi'') start)))
       = [user_text ''hi'', tool_call_message (time_request 0),
          tool_result_message (time_request 0) ''noon'',
          assistant_text ''Error: final response error: failed to send message: connection reset'']"
proof -
  have inv: "results_answer_requests (messages (typed ''hi''))"
    by (simp add: typed_def New_def results_answer_requests_def)
  have ne: "exchange plain_widgets drop_env (typed ''hi'') start \<noteq> None"
    by code_simp
  then obtain m' w' where ex: "exchange plain_widgets drop_env (typed ''hi'') start = Some (m', w')"
    by auto
  note C3_results_answer_requests
    [where m = "typed ''hi''" and ui = plain_widgets and env = drop_env and w = start,
     THEN conjunct2, THEN conjunct1, THEN mp, OF inv, THEN conjunct1, rule_format, OF ex]
  then have "results_answer_requests (messages m')" .
  moreover have "map_option (messages \<circ> fst) (exchange plain_widgets drop_env (typed ''hi'') start)
       = Some [user_text ''hi'', tool_call_message (time_request 0),
          tool_result_message (time_request 0) ''noon'',
          assistant_text ''Error: final response error: failed to send message: connection reset'']"
    by code_simp
  ultimately show ?thesis using inv ne ex by simp
qed

section \<open>Empty responses and transport errors\<close>

text \<open>
  C5 at a failing input: the user submits \<open>hi\<close> and the first gateway response has
  neither tool requests nor content. sendMessage returns it as a success with empty
  content, and \<open>Update\<close> appends an assistant turn with empty content: the exchange ends
  Done, not Failed. (The same response inside sendFinalMessage gives the error
  \<open>empty response from Claude (no error, just empty content)\<close>.)
\<close>

theorem C5_empty_first_response:
  "gateway empty_env 0 (messages asked) (GetAvailableTools (executor asked))
     = Inr \<lparr>RContent = [], ToolCalls = []\<rparr>
   \<and> fst (sendMessage empty_env asked start) = responseMsg [] [user_text ''hi''] None
   \<and> map_option (messages \<circ> fst) (exchange plain_widgets empty_env (typed ''hi'') start)
       = Some [user_text ''hi'', assistant_text []]
   \<and> fst (sendFinalMessage empty_env asked start)
       = responseMsg [] [user_text ''hi'']
           (Some ''empty response from Claude (no error, just empty content)'')"
  by code_simp

text \<open>
  C6, as stated, fails: inside sendFinalMessage the transport error is not passed on
  verbatim but wrapped as \<open>final response error: <error>\<close>.
\<close>

theorem C6_wrapped_error_counterexample:
  "gateway drop_env 1 (messages after_first_tools) (GetAvailableTools (executor after_first_tools))
     = Inl ''failed to send message: connection reset''
   \<and> fst (sendFinalMessage drop_env after_first_tools \<lparr>gateway_calls = 1, exec_calls = 1\<rparr>)
       = responseMsg [] (messages after_first_tools)
           (Some ''final response error: failed to send message: connection reset'')
   \<and> fst (sendFinalMessage drop_env after_first_tools \<lparr>gateway_calls = 1, exec_calls = 1\<rparr>)
       \<noteq> responseMsg [] (messages after_first_tools)
           (Some ''failed to send message: connection reset'')"
  by code_simp

lemma loop_transcript_extends:
  "\<forall>c ms err. fst (sendFinalMessage_loop env e i msgs w) = responseMsg c ms err \<longrightarrow>
     (\<exists>added. ms = msgs @ added)"
proof (rule loop_cases
    [where P = "\<lambda>r i msgs w. \<forall>c ms err. fst r = responseMsg c ms err \<longrightarrow>
                  (\<exists>added. ms = msgs @ added)"], goal_cases)
  case tools: (5 i msgs w response msgs' w2)
  have "msgs' = msgs @ fst (execute_tool_calls env e (ToolCalls response) []
                            (w\<lparr>gateway_calls := Suc (gateway_calls w)\<rparr>))"
    using execute_tool_calls_append
      [of env e "ToolCalls response" msgs "w\<lparr>gateway_calls := Suc (gateway_calls w)\<rparr>"] tools(4)
    by simp
  with tools(5) show ?case by (metis append.assoc)
qed auto

text \<open>
  C6, amended: when the gateway call of sendMessage returns a transport error, the
  result carries that error itself and no transcript, and \<open>Update\<close> appends the
  error turn to the transcript the model holds. When a gateway call inside
  sendFinalMessage returns a transport error, the result carries the error wrapped as
  \<open>final response error: <error>\<close> and the transcript as it was immediately before
  the failing call; that transcript extends the one sendFinalMessage started from.
\<close>

theorem C6_transport_error:
  "(gateway env (gateway_calls w) (messages m) (GetAvailableTools (executor m)) = Inl err \<longrightarrow>
      sendMessage env m w =
        (responseMsg [] [] (Some err), w\<lparr>gateway_calls := Suc (gateway_calls w)\<rparr>)
      \<and> messages (fst (Update ui (responseMsg [] [] (Some err)) m'))
          = messages m' @ [assistant_text (''Error: '' @ err)])
   \<and> (i < maxIterations
        \<and> gateway env (gateway_calls w) msgs (GetAvailableTools e) = Inl err \<longrightarrow>
      sendFinalMessage_loop env e i msgs w =
        (responseMsg [] msgs (Some (''final response error: '' @ err)),
         w\<lparr>gateway_calls := Suc (gateway_calls w)\<rparr>))
   \<and> (fst (sendFinalMessage env m w) = responseMsg c ms err' \<longrightarrow>
        (\<exists>added. ms = messages m @ added))"
proof (intro conjI impI)
  assume "gateway env (gateway_calls w) (messages m) (GetAvailableTools (executor m)) = Inl err"
  then show "sendMessage env m w =
        (responseMsg [] [] (Some err), w\<lparr>gateway_calls := Suc (gateway_calls w)\<rparr>)"
    by (rule sendMessage_transport_error)
next
  show "messages (fst (Update ui (responseMsg [] [] (Some err)) m'))
          = messages m' @ [assistant_text (''Error: '' @ err)]"
    by (simp add: Update_responseMsg_messages)
next
  assume "i < maxIterations
        \<and> gateway env (gateway_calls w) msgs (GetAvailableTools e) = Inl err"
  then show "sendFinalMessage_loop env e i msgs w =
        (responseMsg [] msgs (Some (''final response error: '' @ err)),
         w\<lparr>gateway_calls := Suc (gateway_calls w)\<rparr>)"
    by (simp add: loop_transport_error)
next
  assume "fst (sendFinalMessage env m w) = responseMsg c ms err'"
  then show "\<exists>added. ms = messages m @ added"
    using loop_transcript_extends [of env "executor m" 0 "messages m" w]
    by (simp add: sendFinalMessage_def)
qed

theorem C6_transport_error_witness:
  "gateway drop_env 1 [user_text ''hi''] (GetAvailableTools tools_New)
     = Inl ''failed to send message: connection reset''
   \<and> sendMessage drop_env asked \<lparr>gateway_calls = 1, exec_calls = 0\<rparr>
       = (responseMsg [] [] (Some ''failed to send message: connection reset''),
          \<lparr>gateway_calls = 2, exec_calls = 0\<rparr>)
   \<and> messages (fst (Update plain_widgets
                       (responseMsg [] [] (Some ''failed to send message: connection reset'')) asked))
       = [user_text ''hi'', assistant_text ''Error: failed to send message: connection reset'']
   \<and> (0::nat) < maxIterations
   \<and> sendFinalMessage_loop drop_env tools_New 0 [user_text ''hi'']
         \<lparr>gateway_calls = 1, exec_calls = 0\<rparr>
       = (responseMsg [] [user_text ''hi'']
            (Some ''final response error: failed to send message: connection reset''),
          \<lparr>gateway_calls = 2, exec_calls = 0\<rparr>)
   \<and> fst (sendFinalMessage drop_env asked \<lparr>gateway_calls = 1, exec_calls = 0\<rparr>)
       = responseMsg [] [user_text ''hi'']
           (Some ''final response error: failed to send message: connection reset'')
   \<and> (\<exists>added. [user_text ''hi''] = messages asked @ added)"
proof -
  let ?w = "\<lparr>gateway_calls = 1, exec_calls = 0\<rparr>"
  let ?err = "''failed to send message: connection reset''"
  note c6 = C6_transport_error
    [where env = drop_env and w = ?w and m = asked and err = ?err and ui = plain_widgets
       and m' = asked and i = 0 and msgs = "[user_text ''hi'']" and e = tools_New
       and c = "[]" and ms = "[user_text ''hi'']"
       and err' = "Some ''final response error: failed to send message: connection reset''"]
  have gw: "gateway drop_env 1 [user_text ''hi''] (GetAvailableTools tools_New) = Inl ?err"
    by (simp add: drop_env_def)
  have gw': "gateway drop_env (gateway_calls ?w) (messages asked) (GetAvailableTools (executor asked))
               = Inl ?err"
    by (simp add: drop_env_def)
  have mx: "(0::nat) < maxIterations"
    by (simp add: maxIterations_def)
  have ms: "messages asked = [user_text ''hi'']" "executor asked = tools_New"
    by (simp_all add: asked_def typed_def New_def)
  have sf: "fst (sendFinalMessage drop_env asked ?w)
       = responseMsg [] [user_text ''hi'']
           (Some ''final response error: failed to send message: connection reset'')"
    using c6 gw mx by (simp add: sendFinalMessage_def ms)
  from c6 gw gw' mx sf show ?thesis
    by (simp add: ms)
qed

section \<open>The registry\<close>

text \<open>
  C7, as stated, fails: \<open>RegisterTool\<close> returns no error, and registering \<open>bash\<close>
  again (as \<open>tools.New\<close> does after \<open>ai.NewToolExecutor\<close>) replaces the handler.
\<close>

theorem C7_duplicate_registration_counterexample:
  "tools NewToolExecutor ''bash'' = Some Handler_executeBash
   \<and> tools (RegisterTool ''bash'' Handler_ExecuteBash NewToolExecutor) ''bash''
       = Some Handler_ExecuteBash
   \<and> tools (ai_executor tools_New) ''bash'' = Some Handler_ExecuteBash"
  by (simp add: NewToolExecutor_def RegisterTool_def tools_New_def)

text \<open>
  C7, amended: \<open>RegisterTool\<close> never fails; after it the name is bound to the handler
  just given, whether or not the name was registered before, and every other name is
  bound as before.
\<close>

theorem C7_RegisterTool_replaces:
  "tools (RegisterTool name handler te) name = Some handler
   \<and> (\<forall>other. other \<noteq> name \<longrightarrow> tools (RegisterTool name handler te) other = tools te other)"
  by (simp add: RegisterTool_def)

theorem C7_RegisterTool_replaces_witness:
  "tools (RegisterTool ''bash'' Handler_ExecuteBash NewToolExecutor) ''bash''
     = Some Handler_ExecuteBash
   \<and> ''get_time'' \<noteq> ''bash''
   \<and> tools (RegisterTool ''bash'' Handler_ExecuteBash NewToolExecutor) ''get_time''
       = tools NewToolExecutor ''get_time''
   \<and> tools NewToolExecutor ''get_time'' = Some Handler_executeGetTime"
proof -
  have ne: "''get_time'' \<noteq> ''bash''" by simp
  note c7 = C7_RegisterTool_replaces
    [where name = "''bash''" and handler = Handler_ExecuteBash and te = NewToolExecutor]
  from c7 [THEN conjunct1] c7 [THEN conjunct2, rule_format, OF ne] ne show ?thesis
    by (simp add: NewToolExecutor_def RegisterTool_def)
qed

section \<open>Argument payloads\<close>











section \<open>Content beside tool requests\<close>

lemma call_handler_env:
  assumes e: "exec env' = exec env" and j: "json_parse env' = json_parse env"
    and t: "json_type_error env' = json_type_error env"
  shows "call_handler env' h inp w = call_handler env h inp w"
proof -
  have u: "Unmarshal_params env' x = Unmarshal_params env x" for x
    by (simp only: Unmarshal_params_def j t)
  have c: "CombinedOutput env' argv v = CombinedOutput env argv v" for argv v
    by (simp only: CombinedOutput_def e)
  show ?thesis
    by (cases h)
       (simp_all only: call_handler.simps executeBash_def executeGetTime_def ExecuteBash_def
          ExecuteNvidiaSmi_def u c)
qed

lemma execute_tool_calls_env:
  assumes "exec env' = exec env" "json_parse env' = json_parse env"
    "json_type_error env' = json_type_error env"
  shows "execute_tool_calls env' e calls msgs w = execute_tool_calls env e calls msgs w"
proof (induction calls arbitrary: msgs w)
  case Nil
  then show ?case by simp
next
  case (Cons c calls)
  have x: "Execute env' e c w = Execute env e c w"
    by (simp only: Execute_def ToolExecutor_Execute_def call_handler_env [OF assms])
  obtain r w1 where ex: "Execute env e c w = (r, w1)"
    by (cases "Execute env e c w")
  from Cons.IH x ex show ?case by simp
qed

lemma sendMessage_content_independent:
  assumes "exec env' = exec env" "json_parse env' = json_parse env"
    "json_type_error env' = json_type_error env"
    and g: "gateway env (gateway_calls w) (messages m) (GetAvailableTools (executor m)) = Inr response"
    and g': "gateway env' (gateway_calls w) (messages m) (GetAvailableTools (executor m))
           = Inr (response\<lparr>RContent := content'\<rparr>)"
    and tc: "ToolCalls response \<noteq> []"
  shows "sendMessage env' m w = sendMessage env m w"
proof -
  have tc': "ToolCalls (response\<lparr>RContent := content'\<rparr>) \<noteq> []"
    using tc by simp
  show ?thesis
    using sendMessage_tools [OF g tc] sendMessage_tools [OF g' tc']
      execute_tool_calls_env [OF assms(1-3)]
    by simp
qed

text \<open>
  C9: when a response carries tool requests, what sendMessage and sendFinalMessage do
  next is given by the tool phase alone, which is computed from the tool calls and
  never from the response's content: it appends to the transcript, for each call, one
  assistant turn with empty content (the request) and one tool turn (the result), and
  nothing else. In particular the result of sendMessage is the same whatever content
  came with the tool requests.
\<close>

theorem C9_content_discarded:
  "(gateway env (gateway_calls w) (messages m) (GetAvailableTools (executor m)) = Inr response
      \<and> ToolCalls response \<noteq> [] \<longrightarrow>
      sendMessage env m w =
        (case execute_tool_calls env (executor m) (ToolCalls response) (messages m)
                (w\<lparr>gateway_calls := Suc (gateway_calls w)\<rparr>) of
           (msgs, w2) \<Rightarrow> (toolExecutedMsg msgs, w2)))
   \<and> (i < maxIterations
        \<and> gateway env (gateway_calls w) msgs (GetAvailableTools e) = Inr response
        \<and> ToolCalls response \<noteq> [] \<longrightarrow>
      sendFinalMessage_loop env e i msgs w =
        (case execute_tool_calls env e (ToolCalls response) msgs
                (w\<lparr>gateway_calls := Suc (gateway_calls w)\<rparr>) of
           (msgs', w2) \<Rightarrow> sendFinalMessage_loop env e (Suc i) msgs' w2))
   \<and> execute_tool_calls env e calls msgs w =
        (msgs @ fst (execute_tool_calls env e calls [] w), snd (execute_tool_calls env e calls [] w))
   \<and> list_all (\<lambda>x. Role x = ''tool'' \<or> Role x = ''assistant'' \<and> Content x = [])
        (fst (execute_tool_calls env e calls [] w))
   \<and> length (fst (execute_tool_calls env e calls [] w)) = 2 * length calls
   \<and> (exec env' = exec env \<and> json_parse env' = json_parse env
        \<and> json_type_error env' = json_type_error env
        \<and> gateway env (gateway_calls w) (messages m) (GetAvailableTools (executor m)) = Inr response
        \<and> gateway env' (gateway_calls w) (messages m) (GetAvailableTools (executor m))
             = Inr (response\<lparr>RContent := content'\<rparr>)
        \<and> ToolCalls response \<noteq> [] \<longrightarrow>
      sendMessage env' m w = sendMessage env m w)"
proof (intro conjI impI)
  assume "exec env' = exec env \<and> json_parse env' = json_parse env
        \<and> json_type_error env' = json_type_error env
        \<and> gateway env (gateway_calls w) (messages m) (GetAvailableTools (executor m)) = Inr response
        \<and> gateway env' (gateway_calls w) (messages m) (GetAvailableTools (executor m))
             = Inr (response\<lparr>RContent := content'\<rparr>)
        \<and> ToolCalls response \<noteq> []"
  then show "sendMessage env' m w = sendMessage env m w"
    using sendMessage_content_independent [of env' env w m response content'] by blast
next
  assume "gateway env (gateway_calls w) (messages m) (GetAvailableTools (executor m)) = Inr response
      \<and> ToolCalls response \<noteq> []"
  then show "sendMessage env m w =
        (case execute_tool_calls env (executor m) (ToolCalls response) (messages m)
                (w\<lparr>gateway_calls := Suc (gateway_calls w)\<rparr>) of
           (msgs, w2) \<Rightarrow> (toolExecutedMsg msgs, w2))"
    by (simp add: sendMessage_tools)
next
  assume "i < maxIterations
        \<and> gateway env (gateway_calls w) msgs (GetAvailableTools e) = Inr response
        \<and> ToolCalls response \<noteq> []"
  then show "sendFinalMessage_loop env e i msgs w =
        (case execute_tool_calls env e (ToolCalls response) msgs
                (w\<lparr>gateway_calls := Suc (gateway_calls w)\<rparr>) of
           (msgs', w2) \<Rightarrow> sendFinalMessage_loop env e (Suc i) msgs' w2)"
    by (simp add: loop_tools)
next
  show "execute_tool_calls env e calls msgs w =
        (msgs @ fst (execute_tool_calls env e calls [] w), snd (execute_tool_calls env e calls [] w))"
    by (rule execute_tool_calls_append)
next
  show "list_all (\<lambda>x. Role x = ''tool'' \<or> Role x = ''assistant'' \<and> Content x = [])
        (fst (execute_tool_calls env e calls [] w))"
    by (rule execute_tool_calls_no_text)
next
  have "length (map (\<lambda>x. (Role x, ToolCallID x)) (fst (execute_tool_calls env e calls [] w)))
          = length (turn_pairs calls)"
    by (simp add: execute_tool_calls_turns)
  moreover have "length (turn_pairs cs) = 2 * length cs" for cs
    by (induction cs) simp_all
  ultimately show "length (fst (execute_tool_calls env e calls [] w)) = 2 * length calls"
    by simp
qed

theorem C9_content_discarded_witness:
  "gateway bogus_env (gateway_calls start) (messages asked) (GetAvailableTools (executor asked))
     = Inr \<lparr>RContent = ''Let me look.'', ToolCalls = [bogus_request]\<rparr>
   \<and> sendMessage bogus_env asked start =
       (toolExecutedMsg
          [user_text ''hi'', tool_call_message bogus_request,
           tool_result_message bogus_request ''Error: tool not found: bogus_tool''], start\<lparr>gateway_calls := 1\<rparr>)
   \<and> (0::nat) < maxIterations
   \<and> sendFinalMessage_loop bogus_env tools_New 0 [user_text ''hi''] start =
       sendFinalMessage_loop bogus_env tools_New 1
         [user_text ''hi'', tool_call_message bogus_request,
          tool_result_message bogus_request ''Error: tool not found: bogus_tool'']
         (start\<lparr>gateway_calls := 1\<rparr>)
   \<and> gateway always_bogus_env (gateway_calls start) (messages asked)
         (GetAvailableTools (executor asked))
       = Inr (\<lparr>RContent = ''Let me look.'', ToolCalls = [bogus_request]\<rparr>\<lparr>RContent := []\<rparr>)
   \<and> sendMessage always_bogus_env asked start = sendMessage bogus_env asked start"
proof -
  let ?r = "\<lparr>RContent = ''Let me look.'', ToolCalls = [bogus_request]\<rparr>"
  let ?w1 = "start\<lparr>gateway_calls := Suc (gateway_calls start)\<rparr>"
  have ms: "messages asked = [user_text ''hi'']" "executor asked = tools_New"
    by (simp_all add: asked_def typed_def New_def)
  have gw: "gateway bogus_env (gateway_calls start) (messages asked)
              (GetAvailableTools (executor asked)) = Inr ?r"
    by (simp add: bogus_env_def start_def)
  have gw': "gateway bogus_env (gateway_calls start) [user_text ''hi'']
              (GetAvailableTools tools_New) = Inr ?r"
    by (simp add: bogus_env_def start_def)
  have mx: "(0::nat) < maxIterations"
    by (simp add: maxIterations_def)
  have ph: "execute_tool_calls bogus_env tools_New [bogus_request] [user_text ''hi''] ?w1
            = ([user_text ''hi'', tool_call_message bogus_request,
                tool_result_message bogus_request ''Error: tool not found: bogus_tool''],
               start\<lparr>gateway_calls := 1\<rparr>)"
    by code_simp
  have tc: "ToolCalls ?r = [bogus_request]" "[bogus_request] \<noteq> []"
    by simp_all
  note c9 = C9_content_discarded
    [where env = bogus_env and w = start and m = asked and response = ?r and i = 0
       and msgs = "[user_text ''hi'']" and e = tools_New]
  have a: "sendMessage bogus_env asked start =
        (case execute_tool_calls bogus_env (executor asked) (ToolCalls ?r) (messages asked) ?w1 of
           (msgs, w2) \<Rightarrow> (toolExecutedMsg msgs, w2))"
    using c9 [THEN conjunct1] gw by simp
  have b: "sendFinalMessage_loop bogus_env tools_New 0 [user_text ''hi''] start =
        (case execute_tool_calls bogus_env tools_New (ToolCalls ?r) [user_text ''hi''] ?w1 of
           (msgs', w2) \<Rightarrow> sendFinalMessage_loop bogus_env tools_New (Suc 0) msgs' w2)"
    using c9 [THEN conjunct2, THEN conjunct1] gw' mx by simp
  have envs: "exec always_bogus_env = exec bogus_env"
    "json_parse always_bogus_env = json_parse bogus_env"
    "json_type_error always_bogus_env = json_type_error bogus_env"
    by (simp_all add: always_bogus_env_def bogus_env_def)
  have gw2: "gateway always_bogus_env (gateway_calls start) (messages asked)
               (GetAvailableTools (executor asked)) = Inr (?r\<lparr>RContent := []\<rparr>)"
    by (simp add: always_bogus_env_def)
  note ind = C9_content_discarded
    [where env = bogus_env and env' = always_bogus_env and w = start and m = asked
       and response = ?r and content' = "[]",
     THEN conjunct2, THEN conjunct2, THEN conjunct2, THEN conjunct2, THEN conjunct2, THEN mp]
  have same: "sendMessage always_bogus_env asked start = sendMessage bogus_env asked start"
    by (rule ind) (simp only: envs gw gw2 tc, simp)
  from a [unfolded ms tc ph] b [unfolded tc ph] gw mx gw2 same show ?thesis
    by simp
qed

section \<open>Submitting blank input\<close>

text \<open>
  C10, as stated, fails: both widgets see the key before \<open>Update\<close> looks at it, and
  the model they leave is the one \<open>Update\<close> returns. With a text field that puts a line
  break into blank input on Enter, the model after Enter is not the model before.
\<close>

theorem C10_widget_counterexample:
  "TrimSpace (input_Value newline_widgets
       (input_Update newline_widgets (KeyMsg KeyEnter) (input (typed [CHR 0x20])))) = []
   \<and> input (typed [CHR 0x20]) = [CHR 0x20]
   \<and> input (fst (Update newline_widgets (KeyMsg KeyEnter) (typed [CHR 0x20])))
       = [CHR 0x20, CHR 0x0A]
   \<and> fst (Update newline_widgets (KeyMsg KeyEnter) (typed [CHR 0x20])) \<noteq> typed [CHR 0x20]"
proof -
  have t: "TrimSpace [CHR 0x20, CHR 0x0A] = []"
    by code_simp
  have v: "input_Value newline_widgets
       (input_Update newline_widgets (KeyMsg KeyEnter) (input (typed [CHR 0x20])))
       = [CHR 0x20, CHR 0x0A]"
    by (simp add: newline_widgets_def plain_widgets_def typed_def New_def)
  have a: "input (typed [CHR 0x20]) = [CHR 0x20]"
    by (simp add: typed_def New_def)
  have b: "input (fst (Update newline_widgets (KeyMsg KeyEnter) (typed [CHR 0x20])))
       = [CHR 0x20, CHR 0x0A]"
    using v t
    by (simp add: Update_Enter Let_def newline_widgets_def plain_widgets_def typed_def New_def)
  have "fst (Update newline_widgets (KeyMsg KeyEnter) (typed [CHR 0x20])) \<noteq> typed [CHR 0x20]"
  proof
    assume "fst (Update newline_widgets (KeyMsg KeyEnter) (typed [CHR 0x20])) = typed [CHR 0x20]"
    then have "input (fst (Update newline_widgets (KeyMsg KeyEnter) (typed [CHR 0x20])))
                 = input (typed [CHR 0x20])"
      by simp
    with a b show False by simp
  qed
  with v t a b show ?thesis by simp
qed

text \<open>
  C10, amended: when the trimmed value of the input field is empty, Enter changes nothing but
  what the two widgets do with the key themselves: \<open>Update\<close> returns no command, so the
  transcript, the thinking flag and the world stay as they are and no gateway call is
  made. \<open>Update\<close> on Enter changes the transcript only when the trimmed value is not
  empty (and no exchange is in flight), and then by appending the user turn with the
  trimmed value.
\<close>

theorem C10_blank_input_ignored:
  "(TrimSpace (input_Value ui (input_Update ui (KeyMsg KeyEnter) (input m))) = [] \<longrightarrow>
      Update ui (KeyMsg KeyEnter) m =
        (m\<lparr>input := input_Update ui (KeyMsg KeyEnter) (input m),
           viewport := viewport_Update ui (KeyMsg KeyEnter) (viewport m)\<rparr>, None)
      \<and> messages (fst (Update ui (KeyMsg KeyEnter) m)) = messages m
      \<and> thinking (fst (Update ui (KeyMsg KeyEnter) m)) = thinking m
      \<and> exchange ui env m w =
          Some (m\<lparr>input := input_Update ui (KeyMsg KeyEnter) (input m),
                  viewport := viewport_Update ui (KeyMsg KeyEnter) (viewport m)\<rparr>, w))
   \<and> (messages (fst (Update ui (KeyMsg KeyEnter) m)) \<noteq> messages m \<longrightarrow>
        TrimSpace (input_Value ui (input_Update ui (KeyMsg KeyEnter) (input m))) \<noteq> []
        \<and> \<not> thinking m
        \<and> messages (fst (Update ui (KeyMsg KeyEnter) m)) =
            messages m
              @ [user_text (TrimSpace (input_Value ui (input_Update ui (KeyMsg KeyEnter) (input m))))])"
proof (intro conjI impI)
  assume e: "TrimSpace (input_Value ui (input_Update ui (KeyMsg KeyEnter) (input m))) = []"
  then show u: "Update ui (KeyMsg KeyEnter) m =
        (m\<lparr>input := input_Update ui (KeyMsg KeyEnter) (input m),
           viewport := viewport_Update ui (KeyMsg KeyEnter) (viewport m)\<rparr>, None)"
    by (simp add: Update_Enter Let_def)
  from e show "messages (fst (Update ui (KeyMsg KeyEnter) m)) = messages m"
    by (simp add: Update_Enter_messages)
  from u show "thinking (fst (Update ui (KeyMsg KeyEnter) m)) = thinking m"
    by simp
  from u show "exchange ui env m w =
          Some (m\<lparr>input := input_Update ui (KeyMsg KeyEnter) (input m),
                  viewport := viewport_Update ui (KeyMsg KeyEnter) (viewport m)\<rparr>, w)"
    by (simp add: exchange_def)
next
  assume c: "messages (fst (Update ui (KeyMsg KeyEnter) m)) \<noteq> messages m"
  then show "TrimSpace (input_Value ui (input_Update ui (KeyMsg KeyEnter) (input m))) \<noteq> []"
    by (auto simp: Update_Enter_messages split: if_splits)
  from c show "\<not> thinking m"
    by (auto simp: Update_Enter_messages split: if_splits)
  from c show "messages (fst (Update ui (KeyMsg KeyEnter) m)) =
            messages m
              @ [user_text (TrimSpace (input_Value ui (input_Update ui (KeyMsg KeyEnter) (input m))))]"
    by (auto simp: Update_Enter_messages split: if_splits)
qed

lemma TrimSpace_blank: "TrimSpace [CHR 0x20, CHR 0x09, CHR 0x0A] = []"
  by code_simp

theorem C10_blank_input_ignored_witness:
  "TrimSpace (input_Value newline_widgets
       (input_Update newline_widgets (KeyMsg KeyEnter) (input (typed [CHR 0x20, CHR 0x09])))) = []
   \<and> Update newline_widgets (KeyMsg KeyEnter) (typed [CHR 0x20, CHR 0x09])
       = ((typed [CHR 0x20, CHR 0x09])\<lparr>input := [CHR 0x20, CHR 0x09, CHR 0x0A]\<rparr>, None)
   \<and> messages (fst (Update newline_widgets (KeyMsg KeyEnter) (typed [CHR 0x20, CHR 0x09]))) = []
   \<and> exchange newline_widgets always_tools_env (typed [CHR 0x20, CHR 0x09]) start
       = Some ((typed [CHR 0x20, CHR 0x09])\<lparr>input := [CHR 0x20, CHR 0x09, CHR 0x0A]\<rparr>, start)
   \<and> messages (fst (Update plain_widgets (KeyMsg KeyEnter) (typed ''hi''))) \<noteq> messages (typed ''hi'')
   \<and> messages (fst (Update plain_widgets (KeyMsg KeyEnter) (typed ''hi''))) = [user_text ''hi'']"
proof -
  let ?b = "[CHR 0x20, CHR 0x09]"
  let ?m = "(typed ?b)\<lparr>input := [CHR 0x20, CHR 0x09, CHR 0x0A]\<rparr>"
  have blank: "TrimSpace (input_Value newline_widgets
       (input_Update newline_widgets (KeyMsg KeyEnter) (input (typed ?b)))) = []"
    by (simp add: newline_widgets_def plain_widgets_def typed_def New_def TrimSpace_blank)
  have same: "(typed ?b)\<lparr>input := input_Update newline_widgets (KeyMsg KeyEnter) (input (typed ?b)),
           viewport := viewport_Update newline_widgets (KeyMsg KeyEnter) (viewport (typed ?b))\<rparr>
        = ?m"
    by (simp add: newline_widgets_def plain_widgets_def typed_def New_def)
  have after: "messages (fst (Update plain_widgets (KeyMsg KeyEnter) (typed ''hi''))) = [user_text ''hi'']"
    by (simp add: Update_Enter_typed_hi asked_def)
  have before: "messages (typed ''hi'') = []"
    by (simp add: typed_def New_def)
  have hi: "messages (fst (Update plain_widgets (KeyMsg KeyEnter) (typed ''hi''))) \<noteq> messages (typed ''hi'')"
    by (simp only: after before) simp
  note blank_case = C10_blank_input_ignored
    [where ui = newline_widgets and m = "typed ?b" and env = always_tools_env and w = start,
     THEN conjunct1, THEN mp, OF blank]
  note typed_case = C10_blank_input_ignored
    [where ui = plain_widgets and m = "typed ''hi''", THEN conjunct2, THEN mp, OF hi]
  have none: "messages (typed ?b) = []"
    by (simp add: typed_def New_def)
  from blank_case [THEN conjunct1]
  have u0: "Update newline_widgets (KeyMsg KeyEnter) (typed ?b) = (?m, None)"
    by (simp only: same)
  from blank_case [THEN conjunct2, THEN conjunct1]
  have m0: "messages (fst (Update newline_widgets (KeyMsg KeyEnter) (typed ?b))) = []"
    by (simp only: none)
  from blank_case [THEN conjunct2, THEN conjunct2, THEN conjunct2]
  have x0: "exchange newline_widgets always_tools_env (typed ?b) start = Some (?m, start)"
    by (simp only: same)
  from typed_case have "\<not> thinking (typed ''hi'')"
    by simp
  with blank u0 m0 x0 hi after show ?thesis
    by blast
qed

end
